theory Spec2Isabelle
  imports Main "HOL-Library.AList" "HOL-Library.Monad_Syntax"
begin

section \<open>Python values, exceptions and the text of table cells\<close>

text \<open>
  The exceptions the modelled code can raise. A function that can raise returns
  \<open>error + 'a\<close>; a method that mutates objects and can raise half-way returns the
  exception (if any) together with the store as the mutation left it.
\<close>

datatype error = AttributeError | KeyError | IndexError | ValueError | TypeError

datatype pyval = VInt int | VBool bool | VStr string

definition bind_err :: "error + 'a \<Rightarrow> ('a \<Rightarrow> error + 'b) \<Rightarrow> error + 'b" where
  "bind_err x f = (case x of Inl e \<Rightarrow> Inl e | Inr a \<Rightarrow> f a)"

text \<open>
  Modelled from the spec: the cell classes of the two table readers
  (\<^verbatim>\<open>bcml.core.io.bc_csv\<close> and \<^verbatim>\<open>tbcml.CSV\<close> with its \<^verbatim>\<open>csv_fields\<close>) are not part
  of the sources. The spec describes a cell as an untyped textual value with typed
  accessors and a setter that stringifies; numeric cells are plain ASCII integers,
  boolean cells are \<^verbatim>\<open>0\<close>/\<^verbatim>\<open>1\<close>, and a conversion of malformed text fails explicitly.
  \<open>str_int\<close> is the stringification of an integer, \<open>to_int\<close>, \<open>to_bool\<close> and \<open>to_str\<close>
  are the accessors.
\<close>

definition is_digit :: "char \<Rightarrow> bool" where
  "is_digit c = (c \<in> set ''0123456789'')"

definition digit_val :: "char \<Rightarrow> nat" where
  "digit_val c = of_char c - 48"

definition digit_char :: "nat \<Rightarrow> char" where
  "digit_char d = ''0123456789'' ! d"

function str_nat :: "nat \<Rightarrow> string" where
  "str_nat n = (if n < 10 then [digit_char n] else str_nat (n div 10) @ [digit_char (n mod 10)])"
  by pat_completeness auto
termination
  by (relation "measure id") auto

declare str_nat.simps [simp del]

definition str_int :: "int \<Rightarrow> string" where
  "str_int i = (if i < 0 then CHR ''-'' # str_nat (nat (- i)) else str_nat (nat i))"

definition dec_val :: "string \<Rightarrow> nat" where
  "dec_val s = foldl (\<lambda>a c. 10 * a + digit_val c) 0 s"

definition parse_nat :: "string \<Rightarrow> nat option" where
  "parse_nat s = (if s \<noteq> [] \<and> list_all is_digit s then Some (dec_val s) else None)"

definition parse_int :: "string \<Rightarrow> int option" where
  "parse_int s =
     (case s of
        [] \<Rightarrow> None
      | c # ds \<Rightarrow> if c = CHR ''-'' then map_option (\<lambda>n. - int n) (parse_nat ds)
                 else map_option int (parse_nat s))"

definition to_int :: "string \<Rightarrow> error + int" where
  "to_int s = (case parse_int s of None \<Rightarrow> Inl ValueError | Some i \<Rightarrow> Inr i)"

definition to_bool :: "string \<Rightarrow> error + bool" where
  "to_bool s = (if s = ''1'' then Inr True else if s = ''0'' then Inr False else Inl ValueError)"

definition to_str :: "string \<Rightarrow> error + string" where
  "to_str s = Inr s"

section \<open>The item shop (item\_shop.py)\<close>

subsection \<open>Item\<close>

record Item =
  shop_id :: int
  gatya_item_id :: int
  count :: int
  price :: int
  draw_item_value :: bool
  category_name :: string
  rect_id :: int

text \<open>
  \<^verbatim>\<open>getattr(item, attr)\<close>: an \<^verbatim>\<open>Item\<close> carries exactly the seven attributes that
  \<^verbatim>\<open>__init__\<close> binds; any other name raises \<^verbatim>\<open>AttributeError\<close>.
\<close>

definition getattr_Item :: "Item \<Rightarrow> string \<Rightarrow> error + pyval" where
  "getattr_Item item attr =
     (if attr = ''shop_id'' then Inr (VInt (shop_id item))
      else if attr = ''gatya_item_id'' then Inr (VInt (gatya_item_id item))
      else if attr = ''count'' then Inr (VInt (count item))
      else if attr = ''price'' then Inr (VInt (price item))
      else if attr = ''draw_item_value'' then Inr (VBool (draw_item_value item))
      else if attr = ''category_name'' then Inr (VStr (category_name item))
      else if attr = ''rect_id'' then Inr (VInt (rect_id item))
      else Inl AttributeError)"

text \<open>
  \<^verbatim>\<open>setattr(item, attr, value)\<close>. Python binds any name to any value; the record holds
  the seven attributes at their declared types, so a binding outside them has no
  representation and is the result \<open>Inl TypeError\<close>. \<open>import_item_shop\<close> never reaches
  it: the value it stores was read from the same attribute of another \<^verbatim>\<open>Item\<close>
  (lemma \<open>setattr_after_getattr\<close>).
\<close>

fun setattr_Item :: "Item \<Rightarrow> string \<Rightarrow> pyval \<Rightarrow> error + Item" where
  "setattr_Item item attr (VInt n) =
     (if attr = ''shop_id'' then Inr (item\<lparr>shop_id := n\<rparr>)
      else if attr = ''gatya_item_id'' then Inr (item\<lparr>gatya_item_id := n\<rparr>)
      else if attr = ''count'' then Inr (item\<lparr>count := n\<rparr>)
      else if attr = ''price'' then Inr (item\<lparr>price := n\<rparr>)
      else if attr = ''rect_id'' then Inr (item\<lparr>rect_id := n\<rparr>)
      else Inl TypeError)"
| "setattr_Item item attr (VBool b) =
     (if attr = ''draw_item_value'' then Inr (item\<lparr>draw_item_value := b\<rparr>)
      else Inl TypeError)"
| "setattr_Item item attr (VStr s) =
     (if attr = ''category_name'' then Inr (item\<lparr>category_name := s\<rparr>)
      else Inl TypeError)"

subsection \<open>The store of Item objects and the items dictionary\<close>

text \<open>
  Python stores references: \<^verbatim>\<open>self.items[k] = item\<close> puts the object itself into the
  dictionary, and \<^verbatim>\<open>item.shop_id = k\<close> changes it wherever it is referenced. The store
  is the list of all \<^verbatim>\<open>Item\<close> objects, an object's address is its position, and a new
  object is appended. \<^verbatim>\<open>dict[int, Item]\<close> is an association list from keys to
  addresses in insertion order: \<open>AList.update\<close> replaces the value of a present key in
  place and appends an absent one, as assignment to a Python dict does.
\<close>

type_synonym addr = nat
type_synonym heap = "Item list"
type_synonym items = "(int \<times> addr) list"

definition get_item :: "items \<Rightarrow> int \<Rightarrow> addr option" where
  "get_item its shop_index = map_of its shop_index"

definition set_item :: "int \<Rightarrow> addr \<Rightarrow> heap \<times> items \<Rightarrow> heap \<times> items" where
  "set_item shop_index item st =
     (case st of (h, its) \<Rightarrow>
        (h[item := (h ! item)\<lparr>shop_id := shop_index\<rparr>], AList.update shop_index item its))"

definition add_item :: "addr \<Rightarrow> heap \<times> items \<Rightarrow> heap \<times> items" where
  "add_item item st = (case st of (h, its) \<Rightarrow> set_item (shop_id (h ! item)) item (h, its))"

text \<open>
  \<^verbatim>\<open>shift_items\<close>: the loop over \<^verbatim>\<open>self.items.values()\<close> mutates the objects, then the
  dictionary is rebuilt by the comprehension \<^verbatim>\<open>{item.shop_id: item for item in ...}\<close>,
  which assigns in iteration order (a later item with the same id replaces an earlier one).
\<close>

fun shift_loop :: "addr list \<Rightarrow> int \<Rightarrow> int \<Rightarrow> heap \<Rightarrow> heap" where
  "shift_loop [] start_index shift h = h"
| "shift_loop (item # rest) start_index shift h =
     shift_loop rest start_index shift
       (if shop_id (h ! item) \<ge> start_index
        then h[item := (h ! item)\<lparr>shop_id := shop_id (h ! item) + shift\<rparr>]
        else h)"

definition rebuild :: "addr list \<Rightarrow> heap \<Rightarrow> items" where
  "rebuild vals h = fold (\<lambda>item d. AList.update (shop_id (h ! item)) item d) vals []"

definition shift_items :: "int \<Rightarrow> int \<Rightarrow> heap \<times> items \<Rightarrow> heap \<times> items" where
  "shift_items start_index shift st =
     (case st of (h, its) \<Rightarrow>
        let h' = shift_loop (map snd its) start_index shift h
        in (h', rebuild (map snd its) h'))"

text \<open>\<^verbatim>\<open>self.items.pop(shop_index)\<close> raises \<^verbatim>\<open>KeyError\<close> for an absent key.\<close>

definition remove_item :: "int \<Rightarrow> heap \<times> items \<Rightarrow> error + heap \<times> items" where
  "remove_item shop_index st =
     (case st of (h, its) \<Rightarrow>
        (case map_of its shop_index of
           None \<Rightarrow> Inl KeyError
         | Some _ \<Rightarrow> Inr (shift_items (shop_index + 1) (- 1) (h, AList.delete shop_index its))))"

definition insert_item :: "int \<Rightarrow> addr \<Rightarrow> heap \<times> items \<Rightarrow> heap \<times> items" where
  "insert_item shop_index item st = set_item shop_index item (shift_items shop_index 1 st)"

subsection \<open>Decoding the shop table\<close>

text \<open>
  \<^verbatim>\<open>from_game_data\<close> reads \<^verbatim>\<open>itemShopData.tsv\<close>: \<open>tsv_data\<close> is \<open>None\<close> when the pack
  has no such file and otherwise the rows of the table, each a list of cell texts.
  \<^verbatim>\<open>line[i]\<close> beyond the row raises \<^verbatim>\<open>IndexError\<close>. The texture of the shop is loaded
  by code outside the sources and is touched by no operation below; it is left out.
\<close>

definition line_cell :: "string list \<Rightarrow> nat \<Rightarrow> error + string" where
  "line_cell line i = (if i < length line then Inr (line ! i) else Inl IndexError)"

definition Item_of_line :: "string list \<Rightarrow> error + Item" where
  "Item_of_line line =
     bind_err (bind_err (line_cell line 0) to_int) (\<lambda>a0.
     bind_err (bind_err (line_cell line 1) to_int) (\<lambda>a1.
     bind_err (bind_err (line_cell line 2) to_int) (\<lambda>a2.
     bind_err (bind_err (line_cell line 3) to_int) (\<lambda>a3.
     bind_err (bind_err (line_cell line 4) to_bool) (\<lambda>a4.
     bind_err (bind_err (line_cell line 5) to_str) (\<lambda>a5.
     bind_err (bind_err (line_cell line 6) to_int) (\<lambda>a6.
       Inr \<lparr>shop_id = a0, gatya_item_id = a1, count = a2, price = a3,
            draw_item_value = a4, category_name = a5, rect_id = a6\<rparr>)))))))"

fun load_items :: "string list list \<Rightarrow> heap \<Rightarrow> items \<Rightarrow> error + heap \<times> items" where
  "load_items [] h its = Inr (h, its)"
| "load_items (line # rest) h its =
     (case Item_of_line line of
        Inl e \<Rightarrow> Inl e
      | Inr item \<Rightarrow> load_items rest (h @ [item]) (AList.update (shop_id item) (length h) its))"

definition from_game_data :: "string list list option \<Rightarrow> heap \<Rightarrow> error + heap \<times> items" where
  "from_game_data tsv_data h =
     (case tsv_data of
        None \<Rightarrow> Inr (h, [])
      | Some lines \<Rightarrow> load_items (drop 1 lines) h [])"

subsection \<open>import\_item\_shop\<close>

definition attrs :: "string list" where
  "attrs = [''gatya_item_id'', ''count'', ''price'', ''draw_item_value'',
            ''category_name'', ''imgcut_id'', ''cut'']"

text \<open>
  The inner loop \<^verbatim>\<open>for attr in attrs\<close> for one id: \<open>other_item\<close> and \<open>gd_item\<close> are
  addresses, \<open>current_item\<close> is \<open>None\<close> when \<^verbatim>\<open>self.get_item(id)\<close> found nothing, and
  \<^verbatim>\<open>setattr(None, ...)\<close> raises \<^verbatim>\<open>AttributeError\<close>. An exception leaves the store as
  the assignments before it made it.
\<close>

fun import_attrs :: "string list \<Rightarrow> addr \<Rightarrow> addr \<Rightarrow> addr option \<Rightarrow> heap \<Rightarrow> error option \<times> heap" where
  "import_attrs [] other_item gd_item current_item h = (None, h)"
| "import_attrs (attr # rest) other_item gd_item current_item h =
     (case getattr_Item (h ! other_item) attr of
        Inl e \<Rightarrow> (Some e, h)
      | Inr other_value \<Rightarrow>
         (case getattr_Item (h ! gd_item) attr of
            Inl e \<Rightarrow> (Some e, h)
          | Inr gd_value \<Rightarrow>
             if other_value \<noteq> gd_value then
               (case current_item of
                  None \<Rightarrow> (Some AttributeError, h)
                | Some cur \<Rightarrow>
                   (case setattr_Item (h ! cur) attr other_value of
                      Inl e \<Rightarrow> (Some e, h)
                    | Inr item' \<Rightarrow> import_attrs rest other_item gd_item current_item (h[cur := item'])))
             else import_attrs rest other_item gd_item current_item h))"

text \<open>
  The outer loop \<^verbatim>\<open>for id in all_keys\<close>. Python does not fix the order in which a set
  is iterated, so the order is the list \<open>ids\<close>, an enumeration of \<open>all_keys\<close>.
\<close>

definition all_keys :: "items \<Rightarrow> items \<Rightarrow> items \<Rightarrow> int set" where
  "all_keys self_items other_items gd_items =
     set (map fst self_items) \<union> set (map fst other_items) \<union> set (map fst gd_items)"

fun import_ids :: "int list \<Rightarrow> items \<Rightarrow> items \<Rightarrow> heap \<times> items \<Rightarrow> error option \<times> heap \<times> items" where
  "import_ids [] other_items gd_items st = (None, st)"
| "import_ids (id' # ids) other_items gd_items st =
     (case st of (h, its) \<Rightarrow>
       (case get_item other_items id' of
          None \<Rightarrow> import_ids ids other_items gd_items st
        | Some other_item \<Rightarrow>
           (case get_item gd_items id' of
              Some gd_item \<Rightarrow>
                (case import_attrs attrs other_item gd_item (get_item its id') h of
                   (Some e, h') \<Rightarrow> (Some e, h', its)
                 | (None, h') \<Rightarrow> import_ids ids other_items gd_items (h', its))
            | None \<Rightarrow> import_ids ids other_items gd_items (set_item id' other_item st))))"

definition import_item_shop ::
    "int list \<Rightarrow> items \<Rightarrow> string list list option \<Rightarrow> heap \<times> items \<Rightarrow> error option \<times> heap \<times> items" where
  "import_item_shop ids other_items tsv_data st =
     (case st of (h, its) \<Rightarrow>
        (case from_game_data tsv_data h of
           Inl e \<Rightarrow> (Some e, st)
         | Inr (h1, gd_items) \<Rightarrow> import_ids ids other_items gd_items (h1, its)))"

text \<open>The ids traversed by a call are an enumeration of the union of the three key sets.\<close>

definition traversal_ok :: "int list \<Rightarrow> items \<Rightarrow> string list list option \<Rightarrow> heap \<times> items \<Rightarrow> bool" where
  "traversal_ok ids other_items tsv_data st =
     (case st of (h, its) \<Rightarrow>
        (case from_game_data tsv_data h of
           Inl e \<Rightarrow> True
         | Inr (h1, gd_items) \<Rightarrow> distinct ids \<and> set ids = all_keys its other_items gd_items))"

subsection \<open>Well-formed shops\<close>

text \<open>
  A reference held by the dictionary points into the store, and a dictionary has each key
  once. \<open>key_consistent\<close> is the invariant \<^verbatim>\<open>items[k].shop_id == k\<close>; \<open>contiguous\<close> says
  that the keys are \<open>0, ..., n - 1\<close>. \<open>lookup_item\<close> is \<^verbatim>\<open>items.get(k)\<close> followed by reading
  the object, and \<open>snapshot\<close> lists the dictionary with the objects in place of their
  addresses (what \<^verbatim>\<open>serialize\<close> writes).
\<close>

definition wf_shop :: "heap \<times> items \<Rightarrow> bool" where
  "wf_shop st = (case st of (h, its) \<Rightarrow>
     distinct (map fst its) \<and> list_all (\<lambda>(k, a). a < length h) its)"

definition key_consistent :: "heap \<times> items \<Rightarrow> bool" where
  "key_consistent st = (case st of (h, its) \<Rightarrow> list_all (\<lambda>(k, a). shop_id (h ! a) = k) its)"


definition lookup_item :: "heap \<times> items \<Rightarrow> int \<Rightarrow> Item option" where
  "lookup_item st k = (case st of (h, its) \<Rightarrow> map_option (\<lambda>a. h ! a) (map_of its k))"

definition snapshot :: "heap \<times> items \<Rightarrow> (int \<times> Item) list" where
  "snapshot st = (case st of (h, its) \<Rightarrow> map (\<lambda>(k, a). (k, h ! a)) its)"

section \<open>The main character (ototo\_anim.py)\<close>

text \<open>
  \<^verbatim>\<open>MainChara\<close> defines neither \<^verbatim>\<open>__eq__\<close> nor \<^verbatim>\<open>__ne__\<close>, so \<^verbatim>\<open>gd_chara != other\<close>
  compares object identity. The objects live in a store of their own, an address is a
  position, and \<^verbatim>\<open>from_game_data\<close> allocates a new object holding the model it loaded
  from the game data (\<open>gd_model\<close>; the loader is outside the sources).
\<close>

record 'm MainChara =
  model :: 'm

definition MainChara_from_game_data :: "'m \<Rightarrow> 'm MainChara list \<Rightarrow> 'm MainChara list \<times> addr" where
  "MainChara_from_game_data gd_model h = (h @ [\<lparr>model = gd_model\<rparr>], length h)"

definition import_main_chara :: "addr \<Rightarrow> addr \<Rightarrow> 'm \<Rightarrow> 'm MainChara list \<Rightarrow> 'm MainChara list" where
  "import_main_chara self other gd_model h =
     (case MainChara_from_game_data gd_model h of
        (h1, gd_chara) \<Rightarrow>
          if gd_chara \<noteq> other then h1[self := (h1 ! self)\<lparr>model := model (h1 ! other)\<rparr>]
          else h1)"

section \<open>Concrete shops and tables\<close>

text \<open>
  The inputs at which the operations are evaluated below. \<open>mk_item\<close> builds the item of
  the battle-items category with the given id, count, price and icon; \<open>tsv_row\<close> is the
  table row that decodes to it under the header row \<open>tsv_header\<close>.
\<close>

definition mk_item :: "int \<Rightarrow> int \<Rightarrow> int \<Rightarrow> int \<Rightarrow> Item" where
  "mk_item sid cnt prc rect =
     \<lparr>shop_id = sid, gatya_item_id = 1, count = cnt, price = prc,
      draw_item_value = False, category_name = ''Battle Items'', rect_id = rect\<rparr>"

definition tsv_header :: "string list" where
  "tsv_header = [''shop_id'', ''gatya_item_id'', ''count'', ''price'', ''draw_item_value'',
                 ''category_name'', ''rect_id'']"

definition tsv_row :: "int \<Rightarrow> int \<Rightarrow> int \<Rightarrow> int \<Rightarrow> string list" where
  "tsv_row sid cnt prc rect =
     [str_int sid, ''1'', str_int cnt, str_int prc, ''0'', ''Battle Items'', str_int rect]"

text \<open>The pristine table with the single item of id 5, one piece for 100, icon 0.\<close>

definition pristine5 :: "string list list option" where
  "pristine5 = Some [tsv_header, tsv_row 5 1 100 0]"

text \<open>The pristine table with the single item of id 1.\<close>

definition pristine1 :: "string list list option" where
  "pristine1 = Some [tsv_header, tsv_row 1 1 100 0]"

text \<open>
  A table in which two rows carry the id 5, and a table without a conflict: it holds for
  the id 5 only the row that the first table gives last.
\<close>

definition conflict_tsv :: "string list list option" where
  "conflict_tsv = Some [tsv_header, tsv_row 5 1 100 0, tsv_row 6 1 300 1, tsv_row 5 2 250 3]"

definition conflict_free_tsv :: "string list list option" where
  "conflict_free_tsv = Some [tsv_header, tsv_row 5 2 250 3, tsv_row 6 1 300 1]"

text \<open>
  A shop of five items with the ids 0 to 4, the object of id \<open>k\<close> at address \<open>k\<close>, and a
  sixth object at address 5 that is in no dictionary.
\<close>

definition shop5_heap :: heap where
  "shop5_heap = [mk_item 0 1 10 0, mk_item 1 1 20 1, mk_item 2 1 30 2, mk_item 3 1 40 3,
                 mk_item 4 1 50 4, mk_item 9 1 60 5]"

definition shop5_items :: items where
  "shop5_items = [(0, 0), (1, 1), (2, 2), (3, 3), (4, 4)]"

definition shop5 :: "heap \<times> items" where
  "shop5 = (shop5_heap, shop5_items)"

section \<open>Tables and bound fields (tbcml.CSV, tbcml.io.csv\_fields)\<close>

text \<open>
  Modelled from the spec: the table class \<^verbatim>\<open>tbcml.CSV\<close>, the field classes
  \<^verbatim>\<open>IntCSVField\<close> and \<^verbatim>\<open>StringCSVField\<close> and the functions
  \<^verbatim>\<open>tbcml.Modification.read_csv_fields\<close> and \<^verbatim>\<open>apply_csv_fields\<close> are not part of the
  sources; anim.py only calls them and assigns \<^verbatim>\<open>csv.index\<close>. The spec describes a table
  as an ordered sequence of rows of cells addressed by row and column; a field as a
  column index with an optional row offset and an optional row index, bound to the cell
  at (cursor + row offset, column), the row index replacing the cursor where it is
  given; a read that fails on a cell beyond the extent of the table (OutOfBounds) and on
  malformed text; and a write that sets the cell to the stringified value. A write into
  a fresh table has to create the rows and cells it addresses: \<open>set_cell\<close> extends the
  table by empty rows and the row by empty cells. The attribute written may be \<^verbatim>\<open>None\<close>
  (every bound attribute is \<^verbatim>\<open>Optional\<close>), whose stringification is \<^verbatim>\<open>None\<close>.
  A failed read is the result \<open>None\<close>.
\<close>

record CSV =
  csv_lines :: "string list list"
  csv_index :: nat

definition row_at :: "string list list \<Rightarrow> nat \<Rightarrow> string list" where
  "row_at ls r = (if r < length ls then ls ! r else [])"

definition get_cell :: "CSV \<Rightarrow> nat \<Rightarrow> nat \<Rightarrow> string option" where
  "get_cell csv r c =
     (if c < length (row_at (csv_lines csv) r) then Some (row_at (csv_lines csv) r ! c) else None)"

definition pad :: "nat \<Rightarrow> 'a \<Rightarrow> 'a list \<Rightarrow> 'a list" where
  "pad n filler xs = xs @ replicate (n - length xs) filler"

definition row_set :: "nat \<Rightarrow> string \<Rightarrow> string list \<Rightarrow> string list" where
  "row_set c v row = (pad (Suc c) [] row)[c := v]"

definition set_cell :: "nat \<Rightarrow> nat \<Rightarrow> string \<Rightarrow> CSV \<Rightarrow> CSV" where
  "set_cell r c v csv =
     csv\<lparr>csv_lines := (pad (Suc r) [] (csv_lines csv))[r := row_set c v (row_at (csv_lines csv) r)]\<rparr>"

definition field_row :: "CSV \<Rightarrow> nat option \<Rightarrow> nat \<Rightarrow> nat" where
  "field_row csv row_index row_offset =
     (case row_index of None \<Rightarrow> csv_index csv | Some r \<Rightarrow> r) + row_offset"

definition str_opt_int :: "int option \<Rightarrow> string" where
  "str_opt_int v = (case v of None \<Rightarrow> ''None'' | Some i \<Rightarrow> str_int i)"

definition str_opt_str :: "string option \<Rightarrow> string" where
  "str_opt_str v = (case v of None \<Rightarrow> ''None'' | Some s \<Rightarrow> s)"

text \<open>
  The four operations take the field's \<^verbatim>\<open>col_index\<close>, \<^verbatim>\<open>row_index\<close> and \<^verbatim>\<open>row_offset\<close>
  as \<^verbatim>\<open>IntCSVField(...)\<close> and \<^verbatim>\<open>StringCSVField(...)\<close> are given them in
  \<^verbatim>\<open>__post_init__\<close> (absent: \<open>None\<close> for the row index, \<open>0\<close> for the offset).
\<close>

definition IntCSVField_read :: "nat \<Rightarrow> nat option \<Rightarrow> nat \<Rightarrow> CSV \<Rightarrow> int option" where
  "IntCSVField_read col_index row_index row_offset csv =
     (case get_cell csv (field_row csv row_index row_offset) col_index of
        None \<Rightarrow> None
      | Some s \<Rightarrow> parse_int s)"

definition StringCSVField_read :: "nat \<Rightarrow> nat option \<Rightarrow> nat \<Rightarrow> CSV \<Rightarrow> string option" where
  "StringCSVField_read col_index row_index row_offset csv =
     get_cell csv (field_row csv row_index row_offset) col_index"

definition IntCSVField_write :: "nat \<Rightarrow> nat option \<Rightarrow> nat \<Rightarrow> int option \<Rightarrow> CSV \<Rightarrow> CSV" where
  "IntCSVField_write col_index row_index row_offset v csv =
     set_cell (field_row csv row_index row_offset) col_index (str_opt_int v) csv"

definition StringCSVField_write :: "nat \<Rightarrow> nat option \<Rightarrow> nat \<Rightarrow> string option \<Rightarrow> CSV \<Rightarrow> CSV" where
  "StringCSVField_write col_index row_index row_offset v csv =
     set_cell (field_row csv row_index row_offset) col_index (str_opt_str v) csv"

text \<open>\<^verbatim>\<open>x or 0\<close> for an optional count, and \<^verbatim>\<open>range(n)\<close>, which is empty for \<open>n \<le> 0\<close>.\<close>

definition or0 :: "int option \<Rightarrow> int" where
  "or0 v = (case v of None \<Rightarrow> 0 | Some n \<Rightarrow> n)"

definition py_range :: "int \<Rightarrow> nat list" where
  "py_range n = [0..<nat n]"

text \<open>
  The two loops that every repeated block of anim.py runs:
  \<^verbatim>\<open>for i, x in enumerate(xs): x.apply_csv(ind(i), csv)\<close> and
  \<^verbatim>\<open>for i in range(n): x = X(); x.read_csv(ind(i), csv); xs.append(x)\<close>, the latter over
  the list of the row indices \<open>ind(i)\<close>.
\<close>

fun apply_each :: "(nat \<Rightarrow> CSV \<Rightarrow> 'a \<Rightarrow> CSV) \<Rightarrow> (nat \<Rightarrow> nat) \<Rightarrow> nat \<Rightarrow> 'a list \<Rightarrow> CSV \<Rightarrow> CSV" where
  "apply_each app ind i [] csv = csv"
| "apply_each app ind i (x # xs) csv = apply_each app ind (Suc i) xs (app (ind i) csv x)"

fun read_each :: "(nat \<Rightarrow> CSV \<Rightarrow> ('a \<times> CSV) option) \<Rightarrow> nat list \<Rightarrow> CSV \<Rightarrow> ('a list \<times> CSV) option" where
  "read_each rd [] csv = Some ([], csv)"
| "read_each rd (index # rest) csv =
     do {
       (x, csv1) \<leftarrow> rd index csv;
       (xs, csv2) \<leftarrow> read_each rd rest csv1;
       Some (x # xs, csv2)
     }"

section \<open>Animation records (anim.py)\<close>

text \<open>
  Each dataclass is a record; several classes share attribute names (\<^verbatim>\<open>name\<close>,
  \<^verbatim>\<open>metadata\<close>, \<^verbatim>\<open>parts\<close>, \<^verbatim>\<open>x\<close>, ...), so every field carries a prefix for its class.
  \<^verbatim>\<open>read_csv_fields(self, csv)\<close> and \<^verbatim>\<open>apply_csv_fields(self, csv)\<close> read and write the
  \<^verbatim>\<open>csv__\<close> fields of the object in the order \<^verbatim>\<open>__post_init__\<close> declares them. A
  \<^verbatim>\<open>read_csv\<close> returns the object read together with the table, whose cursor the call
  has moved; for a class all of whose attributes are bound, the object read does not
  depend on the object read into.
\<close>

subsection \<open>KeyFrame\<close>

record KeyFrame =
  kf_frame :: "int option"
  kf_change_in_value :: "int option"
  kf_ease_mode :: "int option"
  kf_ease_power :: "int option"


definition KeyFrame_apply_csv :: "nat \<Rightarrow> CSV \<Rightarrow> KeyFrame \<Rightarrow> CSV" where
  "KeyFrame_apply_csv index csv0 self =
     (IntCSVField_write 3 None 0 (kf_ease_power self)
      (IntCSVField_write 2 None 0 (kf_ease_mode self)
      (IntCSVField_write 1 None 0 (kf_change_in_value self)
      (IntCSVField_write 0 None 0 (kf_frame self)
        (csv0\<lparr>csv_index := index\<rparr>)))))"

subsection \<open>KeyFrames\<close>

record KeyFrames =
  kfs_keyframes :: "KeyFrame list"
  kfs_model_id :: "int option"
  kfs_modification_type :: "int option"
  kfs_loop :: "int option"
  kfs_min_value :: "int option"
  kfs_max_value :: "int option"
  kfs_name :: "string option"
  kfs_total_keyframes :: "int option"


definition KeyFrames_apply_csv :: "nat \<Rightarrow> CSV \<Rightarrow> KeyFrames \<Rightarrow> nat \<times> KeyFrames \<times> CSV" where
  "KeyFrames_apply_csv index csv0 self0 =
     (let self = self0\<lparr>kfs_total_keyframes := Some (int (length (kfs_keyframes self0)))\<rparr>;
          csv =
            IntCSVField_write 0 None 1 (kfs_total_keyframes self)
            (StringCSVField_write 5 None 0 (kfs_name self)
            (IntCSVField_write 4 None 0 (kfs_max_value self)
            (IntCSVField_write 3 None 0 (kfs_min_value self)
            (IntCSVField_write 2 None 0 (kfs_loop self)
            (IntCSVField_write 1 None 0 (kfs_modification_type self)
            (IntCSVField_write 0 None 0 (kfs_model_id self)
              (csv0\<lparr>csv_index := index\<rparr>)))))))
      in (index + 2 + length (kfs_keyframes self), self,
          apply_each KeyFrame_apply_csv (\<lambda>i. index + i + 2) 0 (kfs_keyframes self) csv))"

subsection \<open>MaanimMetadata and UnitAnim\<close>

record MaanimMetadata =
  mam_head_name :: "string option"
  mam_version_code :: "string option"
  mam_total_parts :: "int option"


definition MaanimMetadata_apply_csv :: "CSV \<Rightarrow> MaanimMetadata \<Rightarrow> CSV" where
  "MaanimMetadata_apply_csv csv self =
     (IntCSVField_write 0 (Some 2) 0 (mam_total_parts self)
      (StringCSVField_write 0 (Some 1) 0 (mam_version_code self)
      (StringCSVField_write 0 (Some 0) 0 (mam_head_name self) csv)))"

record UnitAnim =
  ua_metadata :: MaanimMetadata
  ua_parts :: "KeyFrames list"
  ua_name :: "string option"



fun UnitAnim_apply_parts :: "nat \<Rightarrow> KeyFrames list \<Rightarrow> CSV \<Rightarrow> nat \<times> KeyFrames list \<times> CSV" where
  "UnitAnim_apply_parts index [] csv = (index, [], csv)"
| "UnitAnim_apply_parts index (part # rest) csv =
     (case KeyFrames_apply_csv index csv part of
        (index1, part', csv1) \<Rightarrow>
          (case UnitAnim_apply_parts index1 rest csv1 of
             (index2, rest', csv2) \<Rightarrow> (index2, part' # rest', csv2)))"

definition UnitAnim_apply_csv :: "CSV \<Rightarrow> UnitAnim \<Rightarrow> UnitAnim \<times> CSV" where
  "UnitAnim_apply_csv csv self =
     (let metadata = (ua_metadata self)\<lparr>mam_total_parts := Some (int (length (ua_parts self)))\<rparr>;
          csv1 = MaanimMetadata_apply_csv csv metadata
      in case UnitAnim_apply_parts 3 (ua_parts self) csv1 of
           (index, parts, csv2) \<Rightarrow> (self\<lparr>ua_metadata := metadata, ua_parts := parts\<rparr>, csv2))"

subsection \<open>Mamodel\<close>

record MamodelMetaData =
  mmd_head_name :: "string option"
  mmd_version_code :: "string option"
  mmd_total_parts :: "int option"


definition MamodelMetaData_apply_csv :: "CSV \<Rightarrow> MamodelMetaData \<Rightarrow> CSV" where
  "MamodelMetaData_apply_csv csv self =
     (IntCSVField_write 0 (Some 2) 0 (mmd_total_parts self)
      (StringCSVField_write 0 (Some 1) 0 (mmd_version_code self)
      (StringCSVField_write 0 (Some 0) 0 (mmd_head_name self) csv)))"

record ModelPart =
  mp_parent_id :: "int option"
  mp_unit_id :: "int option"
  mp_cut_id :: "int option"
  mp_z_depth :: "int option"
  mp_x :: "int option"
  mp_y :: "int option"
  mp_pivot_x :: "int option"
  mp_pivot_y :: "int option"
  mp_scale_x :: "int option"
  mp_scale_y :: "int option"
  mp_rotation :: "int option"
  mp_alpha :: "int option"
  mp_glow :: "int option"
  mp_name :: "string option"


definition ModelPart_apply_csv :: "nat \<Rightarrow> CSV \<Rightarrow> ModelPart \<Rightarrow> CSV" where
  "ModelPart_apply_csv index csv0 self =
     (StringCSVField_write 13 None 0 (mp_name self)
      (IntCSVField_write 12 None 0 (mp_glow self)
      (IntCSVField_write 11 None 0 (mp_alpha self)
      (IntCSVField_write 10 None 0 (mp_rotation self)
      (IntCSVField_write 9 None 0 (mp_scale_y self)
      (IntCSVField_write 8 None 0 (mp_scale_x self)
      (IntCSVField_write 7 None 0 (mp_pivot_y self)
      (IntCSVField_write 6 None 0 (mp_pivot_x self)
      (IntCSVField_write 5 None 0 (mp_y self)
      (IntCSVField_write 4 None 0 (mp_x self)
      (IntCSVField_write 3 None 0 (mp_z_depth self)
      (IntCSVField_write 2 None 0 (mp_cut_id self)
      (IntCSVField_write 1 None 0 (mp_unit_id self)
      (IntCSVField_write 0 None 0 (mp_parent_id self)
        (csv0\<lparr>csv_index := index\<rparr>)))))))))))))))"

record MamodelUnits =
  mu_scale_unit :: "int option"
  mu_angle_unit :: "int option"
  mu_alpha_unit :: "int option"


definition MamodelUnits_apply_csv :: "nat \<Rightarrow> CSV \<Rightarrow> MamodelUnits \<Rightarrow> CSV" where
  "MamodelUnits_apply_csv index csv0 self =
     (IntCSVField_write 2 None 0 (mu_alpha_unit self)
      (IntCSVField_write 1 None 0 (mu_angle_unit self)
      (IntCSVField_write 0 None 0 (mu_scale_unit self)
        (csv0\<lparr>csv_index := index\<rparr>))))"

record MamodelInts =
  mi_int_0 :: "int option"
  mi_int_1 :: "int option"
  mi_int_2 :: "int option"
  mi_int_3 :: "int option"
  mi_int_4 :: "int option"
  mi_int_5 :: "int option"
  mi_comment :: "string option"


definition MamodelInts_apply_csv :: "nat \<Rightarrow> CSV \<Rightarrow> MamodelInts \<Rightarrow> CSV" where
  "MamodelInts_apply_csv index csv0 self =
     (StringCSVField_write 6 None 0 (mi_comment self)
      (IntCSVField_write 5 None 0 (mi_int_5 self)
      (IntCSVField_write 4 None 0 (mi_int_4 self)
      (IntCSVField_write 3 None 0 (mi_int_3 self)
      (IntCSVField_write 2 None 0 (mi_int_2 self)
      (IntCSVField_write 1 None 0 (mi_int_1 self)
      (IntCSVField_write 0 None 0 (mi_int_0 self)
        (csv0\<lparr>csv_index := index\<rparr>))))))))"

record MamodelIntsInts =
  mii_ints :: "MamodelInts list"
  mii_total_ints :: "int option"


definition MamodelIntsInts_apply_csv :: "nat \<Rightarrow> CSV \<Rightarrow> MamodelIntsInts \<Rightarrow> MamodelIntsInts \<times> CSV" where
  "MamodelIntsInts_apply_csv index csv0 self0 =
     (let self = self0\<lparr>mii_total_ints := Some (int (length (mii_ints self0)))\<rparr>;
          csv = IntCSVField_write 0 None 0 (mii_total_ints self) (csv0\<lparr>csv_index := index\<rparr>)
      in (self, apply_each MamodelInts_apply_csv (\<lambda>i. index + i + 1) 0 (mii_ints self) csv))"

record Mamodel =
  mm_metadata :: MamodelMetaData
  mm_parts :: "ModelPart list"
  mm_units :: MamodelUnits
  mm_ints :: MamodelIntsInts
  mm_mamodel_name :: "string option"


definition Mamodel_apply_csv :: "CSV \<Rightarrow> Mamodel \<Rightarrow> Mamodel \<times> CSV" where
  "Mamodel_apply_csv csv self =
     (let metadata = (mm_metadata self)\<lparr>mmd_total_parts := Some (int (length (mm_parts self)))\<rparr>;
          csv1 = MamodelMetaData_apply_csv csv metadata;
          csv2 = apply_each ModelPart_apply_csv (\<lambda>i. i + 3) 0 (mm_parts self) csv1;
          csv3 = MamodelUnits_apply_csv (length (mm_parts self) + 3) csv2 (mm_units self)
      in case MamodelIntsInts_apply_csv (length (mm_parts self) + 4) csv3 (mm_ints self) of
           (ints, csv4) \<Rightarrow> (self\<lparr>mm_metadata := metadata, mm_ints := ints\<rparr>, csv4))"

subsection \<open>Texture\<close>

text \<open>
  The image of a texture and \<^verbatim>\<open>apply_img\<close>, which hands it to the game data, are left
  out: they touch neither the table nor the attributes bound to it.
\<close>

record Rect =
  rect_x :: "int option"
  rect_y :: "int option"
  rect_w :: "int option"
  rect_h :: "int option"
  rect_name :: "string option"

definition Rect_read_csv :: "nat \<Rightarrow> CSV \<Rightarrow> (Rect \<times> CSV) option" where
  "Rect_read_csv index csv0 =
     (let csv = csv0\<lparr>csv_index := index\<rparr> in
      do {
        a0 \<leftarrow> IntCSVField_read 0 None 0 csv;
        a1 \<leftarrow> IntCSVField_read 1 None 0 csv;
        a2 \<leftarrow> IntCSVField_read 2 None 0 csv;
        a3 \<leftarrow> IntCSVField_read 3 None 0 csv;
        a4 \<leftarrow> StringCSVField_read 4 None 0 csv;
        Some (\<lparr>rect_x = Some a0, rect_y = Some a1, rect_w = Some a2, rect_h = Some a3,
               rect_name = Some a4\<rparr>, csv)
      })"

definition Rect_apply_csv :: "nat \<Rightarrow> CSV \<Rightarrow> Rect \<Rightarrow> CSV" where
  "Rect_apply_csv index csv0 self =
     (StringCSVField_write 4 None 0 (rect_name self)
      (IntCSVField_write 3 None 0 (rect_h self)
      (IntCSVField_write 2 None 0 (rect_w self)
      (IntCSVField_write 1 None 0 (rect_y self)
      (IntCSVField_write 0 None 0 (rect_x self)
        (csv0\<lparr>csv_index := index\<rparr>))))))"

record TextureMetadata =
  tm_head_name :: "string option"
  tm_version_code :: "string option"
  tm_img_name :: "string option"
  tm_total_rects :: "int option"

definition TextureMetadata_read_csv :: "CSV \<Rightarrow> TextureMetadata option" where
  "TextureMetadata_read_csv csv =
     do {
       a0 \<leftarrow> StringCSVField_read 0 (Some 0) 0 csv;
       a1 \<leftarrow> StringCSVField_read 0 (Some 1) 0 csv;
       a2 \<leftarrow> StringCSVField_read 0 (Some 2) 0 csv;
       a3 \<leftarrow> IntCSVField_read 0 (Some 3) 0 csv;
       Some \<lparr>tm_head_name = Some a0, tm_version_code = Some a1, tm_img_name = Some a2,
             tm_total_rects = Some a3\<rparr>
     }"

definition TextureMetadata_apply_csv :: "CSV \<Rightarrow> TextureMetadata \<Rightarrow> CSV" where
  "TextureMetadata_apply_csv csv self =
     (IntCSVField_write 0 (Some 3) 0 (tm_total_rects self)
      (StringCSVField_write 0 (Some 2) 0 (tm_img_name self)
      (StringCSVField_write 0 (Some 1) 0 (tm_version_code self)
      (StringCSVField_write 0 (Some 0) 0 (tm_head_name self) csv))))"

record Texture =
  tex_metadata :: TextureMetadata
  tex_rects :: "Rect list"
  tex_imgcut_name :: string

definition Texture_read_csv :: "CSV \<Rightarrow> string option \<Rightarrow> Texture \<Rightarrow> (Texture \<times> CSV) option" where
  "Texture_read_csv csv imgcut_name self0 =
     (let self = (case imgcut_name of None \<Rightarrow> self0 | Some n \<Rightarrow> self0\<lparr>tex_imgcut_name := n\<rparr>) in
      do {
        metadata \<leftarrow> TextureMetadata_read_csv csv;
        (rects, csv') \<leftarrow>
          read_each Rect_read_csv (map (\<lambda>i. i + 4) (py_range (or0 (tm_total_rects metadata)))) csv;
        Some (self\<lparr>tex_metadata := metadata, tex_rects := rects\<rparr>, csv')
      })"

definition Texture_apply_csv :: "CSV \<Rightarrow> Texture \<Rightarrow> Texture \<times> CSV" where
  "Texture_apply_csv csv self =
     (let metadata = (tex_metadata self)\<lparr>tm_total_rects := Some (int (length (tex_rects self)))\<rparr>;
          csv1 = TextureMetadata_apply_csv csv metadata
      in (self\<lparr>tex_metadata := metadata\<rparr>,
          apply_each Rect_apply_csv (\<lambda>i. i + 4) 0 (tex_rects self) csv1))"

text \<open>The fresh table \<^verbatim>\<open>tbcml.CSV()\<close>.\<close>

definition empty_csv :: CSV where
  "empty_csv = \<lparr>csv_lines = [], csv_index = 0\<rparr>"








text \<open>The number of table rows that one \<^verbatim>\<open>KeyFrames\<close> block takes.\<close>

definition block_rows :: "KeyFrames \<Rightarrow> nat" where
  "block_rows part = 2 + length (kfs_keyframes part)"




section \<open>Concrete animation records\<close>

text \<open>
  An animation of two parts, the first with two keyframes and a stale count of 7, the
  second with no keyframe and no count; its own part count is stale as well. A model
  with one part and one row of ints. The objects that the constructors \<^verbatim>\<open>UnitAnim()\<close>
  and \<^verbatim>\<open>KeyFrame()\<close> build, all of whose attributes are \<^verbatim>\<open>None\<close>.
\<close>

definition keyframe_a :: KeyFrame where
  "keyframe_a = \<lparr>kf_frame = Some 0, kf_change_in_value = Some 10, kf_ease_mode = Some 0,
                  kf_ease_power = Some 0\<rparr>"

definition keyframe_b :: KeyFrame where
  "keyframe_b = \<lparr>kf_frame = Some 12, kf_change_in_value = Some (- 45), kf_ease_mode = Some 1,
                  kf_ease_power = Some 2\<rparr>"

definition part_a :: KeyFrames where
  "part_a = \<lparr>kfs_keyframes = [keyframe_a, keyframe_b], kfs_model_id = Some 1,
              kfs_modification_type = Some 11, kfs_loop = Some (- 1), kfs_min_value = Some 0,
              kfs_max_value = Some 0, kfs_name = Some ''arm'', kfs_total_keyframes = Some 7\<rparr>"

definition part_b :: KeyFrames where
  "part_b = \<lparr>kfs_keyframes = [], kfs_model_id = Some 2, kfs_modification_type = Some 4,
              kfs_loop = Some 1, kfs_min_value = Some 0, kfs_max_value = Some 0,
              kfs_name = Some ''leg'', kfs_total_keyframes = None\<rparr>"

definition anim_ab :: UnitAnim where
  "anim_ab = \<lparr>ua_metadata = \<lparr>mam_head_name = Some ''[modelanim:animation]'',
                                mam_version_code = Some ''1'', mam_total_parts = Some 0\<rparr>,
               ua_parts = [part_a, part_b], ua_name = Some ''000_f00.maanim''\<rparr>"

definition model_part_a :: ModelPart where
  "model_part_a = \<lparr>mp_parent_id = Some (- 1), mp_unit_id = Some 0, mp_cut_id = Some 3,
     mp_z_depth = Some 5, mp_x = Some 10, mp_y = Some 20, mp_pivot_x = Some 0, mp_pivot_y = Some 0,
     mp_scale_x = Some 1000, mp_scale_y = Some 1000, mp_rotation = Some 0, mp_alpha = Some 255,
     mp_glow = Some 0, mp_name = Some ''body''\<rparr>"

definition model_a :: Mamodel where
  "model_a = \<lparr>mm_metadata = \<lparr>mmd_head_name = Some ''[modelanim:model]'',
                                mmd_version_code = Some ''3'', mmd_total_parts = Some 9\<rparr>,
               mm_parts = [model_part_a],
               mm_units = \<lparr>mu_scale_unit = Some 1000, mu_angle_unit = Some 3600,
                           mu_alpha_unit = Some 1000\<rparr>,
               mm_ints = \<lparr>mii_ints = [\<lparr>mi_int_0 = Some 0, mi_int_1 = Some 0, mi_int_2 = Some 0,
                                        mi_int_3 = Some 0, mi_int_4 = Some 0, mi_int_5 = Some 0,
                                        mi_comment = Some ''default''\<rparr>],
                          mii_total_ints = None\<rparr>,
               mm_mamodel_name = Some ''000_f.mamodel''\<rparr>"

definition texture_a :: Texture where
  "texture_a = \<lparr>tex_metadata = \<lparr>tm_head_name = Some ''[imgcut]'', tm_version_code = Some ''0'',
                                   tm_img_name = Some ''000_f.png'', tm_total_rects = Some 5\<rparr>,
                 tex_rects = [\<lparr>rect_x = Some 0, rect_y = Some 0, rect_w = Some 8, rect_h = Some 8,
                               rect_name = Some ''head''\<rparr>,
                              \<lparr>rect_x = Some 8, rect_y = Some 0, rect_w = Some 4, rect_h = Some 4,
                               rect_name = Some ''hand''\<rparr>],
                 tex_imgcut_name = ''000_f.imgcut''\<rparr>"






section \<open>Properties of import\_item\_shop and import\_main\_chara\<close>

subsection \<open>The attribute loop always raises\<close>

text \<open>
  \<open>attrs\<close> names \<^verbatim>\<open>imgcut_id\<close> and \<^verbatim>\<open>cut\<close>, which no \<^verbatim>\<open>Item\<close> has, and leaves out
  \<^verbatim>\<open>rect_id\<close>. So the attribute loop never completes: it raises \<^verbatim>\<open>AttributeError\<close> at
  \<^verbatim>\<open>imgcut_id\<close> at the latest, and the import raises as soon as the traversal reaches an
  id that both the imported shop and the game data hold.
\<close>

lemma setattr_after_getattr:
  "getattr_Item a attr = Inr v \<Longrightarrow> \<exists>b'. setattr_Item b attr v = Inr b'"
  by (auto simp: getattr_Item_def split: if_splits)

lemma getattr_Item_error: "getattr_Item a attr = Inl e \<Longrightarrow> e = AttributeError"
  by (auto simp: getattr_Item_def split: if_splits)

lemma getattr_Item_imgcut_id: "getattr_Item a ''imgcut_id'' = Inl AttributeError"
  by (simp add: getattr_Item_def)

lemma import_attrs_unknown_attribute:
  "''imgcut_id'' \<in> set as \<Longrightarrow>
   fst (import_attrs as other_item gd_item current_item h) = Some AttributeError"
proof (induction as arbitrary: h)
  case Nil
  then show ?case by simp
next
  case (Cons attr rest)
  show ?case
  proof (cases "getattr_Item (h ! other_item) attr")
    case (Inl e)
    then show ?thesis by (simp add: getattr_Item_error)
  next
    case ov: (Inr other_value)
    then have ne: "attr \<noteq> ''imgcut_id''" by (auto simp: getattr_Item_imgcut_id)
    with Cons.prems have rest: "''imgcut_id'' \<in> set rest" by simp
    show ?thesis
    proof (cases "getattr_Item (h ! gd_item) attr")
      case (Inl e)
      with ov show ?thesis by (simp add: getattr_Item_error)
    next
      case gv: (Inr gd_value)
      show ?thesis
      proof (cases "other_value \<noteq> gd_value")
        case False
        with ov gv Cons.IH[OF rest] show ?thesis by simp
      next
        case True
        show ?thesis
        proof (cases current_item)
          case None
          with ov gv True show ?thesis by simp
        next
          case (Some cur)
          from setattr_after_getattr[OF ov] obtain item' where
            "setattr_Item (h ! cur) attr other_value = Inr item'" by blast
          with ov gv True Some Cons.IH[OF rest] show ?thesis by simp
        qed
      qed
    qed
  qed
qed

lemma import_attrs_raises:
  "fst (import_attrs attrs other_item gd_item current_item h) = Some AttributeError"
  by (rule import_attrs_unknown_attribute) (simp add: attrs_def)

lemma import_ids_raises:
  "id' \<in> set ids \<Longrightarrow> map_of other_items id' \<noteq> None \<Longrightarrow> map_of gd_items id' \<noteq> None \<Longrightarrow>
   fst (import_ids ids other_items gd_items st) = Some AttributeError"
proof (induction ids arbitrary: st)
  case Nil
  then show ?case by simp
next
  case (Cons x ids)
  obtain h its where st: "st = (h, its)" by (cases st)
  show ?case
  proof (cases "map_of other_items x")
    case None
    with Cons have "id' \<in> set ids" by auto
    with Cons None st show ?thesis by (simp add: get_item_def)
  next
    case (Some other_item)
    show ?thesis
    proof (cases "map_of gd_items x")
      case None
      with Cons Some have "id' \<in> set ids" by auto
      with Cons None Some st show ?thesis by (simp add: get_item_def)
    next
      case gd: (Some gd_item)
      obtain e h' where r: "import_attrs attrs other_item gd_item (get_item its x) h = (e, h')"
        by (cases "import_attrs attrs other_item gd_item (get_item its x) h")
      with import_attrs_raises[of other_item gd_item "get_item its x" h] have "e = Some AttributeError" by simp
      with r Some gd st show ?thesis by (simp add: get_item_def)
    qed
  qed
qed

text \<open>
  Claim C1 (field-level three-way merge): for an id present in current, pristine and
  incoming, the merge is to set exactly the attributes in which incoming differs from
  pristine. The code does not: at the spec's own scenario (pristine price 100, incoming
  price 150, current price 100; the incoming item also has the icon 7 instead of 0) the
  call raises \<^verbatim>\<open>AttributeError\<close>, having set the price of the current item (address 0)
  and not its \<^verbatim>\<open>rect_id\<close>. The third object of the resulting store is the pristine
  item that \<^verbatim>\<open>from_game_data\<close> allocated.
\<close>

theorem C1_import_item_shop_raises:
  "traversal_ok [5] [(5, 1)] pristine5 ([mk_item 5 1 100 0, mk_item 5 1 150 7], [(5, 0)]) \<and>
   import_item_shop [5] [(5, 1)] pristine5 ([mk_item 5 1 100 0, mk_item 5 1 150 7], [(5, 0)]) =
     (Some AttributeError,
      [mk_item 5 1 150 0, mk_item 5 1 150 7, mk_item 5 1 100 0], [(5, 0)])"
  by code_simp

text \<open>
  Claim C2 (merge identity law): merging the pristine snapshot itself is to leave current
  unchanged, for \<^verbatim>\<open>import_item_shop\<close> and for \<^verbatim>\<open>import_main_chara\<close>. The shop import of
  the pristine item (address 1) into a shop whose item has the price 200 (address 0)
  raises \<^verbatim>\<open>AttributeError\<close>. \<^verbatim>\<open>import_main_chara\<close> compares the freshly loaded object
  with the imported one by identity, finds them different and replaces the model: the
  current character (address 0) with the model \<^verbatim>\<open>modded\<close> ends with the pristine model.
\<close>

theorem C2_merge_identity_fails:
  "import_item_shop [5] [(5, 1)] pristine5 ([mk_item 5 1 200 0, mk_item 5 1 100 0], [(5, 0)]) =
     (Some AttributeError,
      [mk_item 5 1 200 0, mk_item 5 1 100 0, mk_item 5 1 100 0], [(5, 0)]) \<and>
   import_main_chara 0 1 ''pristine'' [\<lparr>model = ''modded''\<rparr>, \<lparr>model = ''pristine''\<rparr>] ! 0 =
     \<lparr>model = ''pristine''\<rparr>"
  by code_simp

text \<open>
  Claim C3 (disjoint-field composition): merging mod A and then mod B, which edit
  disjoint attributes of one record, is to retain both edits. Here A (address 1) sets
  the price of item 5 to 150 and B (address 2) sets its icon to 7. The merge of A raises
  \<^verbatim>\<open>AttributeError\<close>; the merge of B into the store that the first call left raises again,
  and the current item (address 0) has A's price but never B's icon.
\<close>

theorem C3_disjoint_edits_lost:
  "import_item_shop [5] [(5, 1)] pristine5
       ([mk_item 5 1 100 0, mk_item 5 1 150 0, mk_item 5 1 100 7], [(5, 0)]) =
     (Some AttributeError,
      [mk_item 5 1 150 0, mk_item 5 1 150 0, mk_item 5 1 100 7, mk_item 5 1 100 0], [(5, 0)]) \<and>
   import_item_shop [5] [(5, 2)] pristine5
       ([mk_item 5 1 150 0, mk_item 5 1 150 0, mk_item 5 1 100 7, mk_item 5 1 100 0], [(5, 0)]) =
     (Some AttributeError,
      [mk_item 5 1 150 0, mk_item 5 1 150 0, mk_item 5 1 100 7, mk_item 5 1 100 0,
       mk_item 5 1 100 0], [(5, 0)])"
  by code_simp

text \<open>
  Claim C4 (new-record rule): every id that incoming has and pristine lacks is to be
  stored in current wholesale. Here incoming holds the pristine item 1 unchanged
  (address 1) and a new item 2 (address 2); the traversal reaches id 1 first, the
  attribute loop raises, and item 2 is never stored: the dictionary of the current shop
  still has the key 1 only.
\<close>

theorem C4_new_record_not_stored:
  "traversal_ok [1, 2] [(1, 1), (2, 2)] pristine1
       ([mk_item 1 1 100 0, mk_item 1 1 100 0, mk_item 2 1 500 2], [(1, 0)]) \<and>
   import_item_shop [1, 2] [(1, 1), (2, 2)] pristine1
       ([mk_item 1 1 100 0, mk_item 1 1 100 0, mk_item 2 1 500 2], [(1, 0)]) =
     (Some AttributeError,
      [mk_item 1 1 100 0, mk_item 1 1 100 0, mk_item 2 1 500 2, mk_item 1 1 100 0], [(1, 0)])"
  by code_simp

section \<open>Properties of the shop operations\<close>

subsection \<open>The shift loop and the rebuilt dictionary\<close>

lemma length_shift_loop [simp]: "length (shift_loop as s d h) = length h"
  by (induction as arbitrary: h) auto



lemma map_of_fold_update:
  "map_of (fold (\<lambda>a. AList.update (f a) a) as d) = fold (\<lambda>a m. m(f a \<mapsto> a)) as (map_of d)"
  by (induction as arbitrary: d) (auto simp: update_conv')

lemma fold_upd_notin: "k \<notin> f ` set as \<Longrightarrow> fold (\<lambda>a m. m(f a \<mapsto> a)) as m k = m k"
  by (induction as arbitrary: m) auto



lemma rebuild_map_of_notin:
  "k \<notin> (\<lambda>a. shop_id (h ! a)) ` set as \<Longrightarrow> map_of (rebuild as h) k = None"
  unfolding rebuild_def map_of_fold_update
  by (simp add: fold_upd_notin)

lemma fold_update_set:
  "(k, a) \<in> set (fold (\<lambda>a. AList.update (f a) a) as d) \<Longrightarrow> (k, a) \<in> set d \<or> (a \<in> set as \<and> k = f a)"
proof (induction as arbitrary: d)
  case Nil
  then show ?case by simp
next
  case (Cons x as)
  from Cons.IH[of "AList.update (f x) x d"] Cons.prems
  have "(k, a) \<in> set (AList.update (f x) x d) \<or> (a \<in> set as \<and> k = f a)" by simp
  moreover have "(k, a) \<in> set (AList.update (f x) x d) \<Longrightarrow> (k, a) \<in> set d \<or> (a = x \<and> k = f x)"
    by (induction d) (auto split: if_splits)
  ultimately show ?case by auto
qed

lemma rebuild_set: "(k, a) \<in> set (rebuild as h) \<Longrightarrow> a \<in> set as \<and> k = shop_id (h ! a)"
  unfolding rebuild_def using fold_update_set[of k a "\<lambda>a. shop_id (h ! a)" as "[]"] by simp

lemma distinct_fold_update:
  "distinct (map fst d) \<Longrightarrow> distinct (map fst (fold (\<lambda>a. AList.update (f a) a) as d))"
  by (induction as arbitrary: d) (auto simp: distinct_update)

lemma distinct_rebuild: "distinct (map fst (rebuild as h))"
  unfolding rebuild_def by (rule distinct_fold_update) simp



lemma key_consistent_shift_items: "key_consistent (shift_items s d st)"
  by (cases st) (auto simp: key_consistent_def shift_items_def Let_def list_all_iff dest: rebuild_set)

subsection \<open>The key invariant\<close>






lemma update_set_distinct:
  "distinct (map fst al) \<Longrightarrow> (k', v') \<in> set (AList.update k v al) \<Longrightarrow>
   (k', v') = (k, v) \<or> ((k', v') \<in> set al \<and> k' \<noteq> k)"
  by (induction al) (auto split: if_splits simp: rev_image_eqI)

lemma update_set_subset: "(k', v') \<in> set (AList.update k v al) \<Longrightarrow> (k', v') = (k, v) \<or> (k', v') \<in> set al"
  by (induction al) (auto split: if_splits)


lemma key_consistent_set_item:
  assumes wf: "wf_shop (h, its)" and kc: "key_consistent (h, its)"
    and valid: "item < length h" and fresh: "\<forall>k. (k, item) \<in> set its \<longrightarrow> k = shop_index"
  shows "key_consistent (set_item shop_index item (h, its))"
proof -
  { fix k' a' assume "(k', a') \<in> set (AList.update shop_index item its)"
    with wf have "(k', a') = (shop_index, item) \<or> ((k', a') \<in> set its \<and> k' \<noteq> shop_index)"
      by (auto simp: wf_shop_def dest: update_set_distinct)
    then have "shop_id (h[item := (h ! item)\<lparr>shop_id := shop_index\<rparr>] ! a') = k'"
    proof
      assume "(k', a') = (shop_index, item)"
      with valid show ?thesis by simp
    next
      assume *: "(k', a') \<in> set its \<and> k' \<noteq> shop_index"
      with fresh have "a' \<noteq> item" by auto
      with * kc show ?thesis by (auto simp: key_consistent_def list_all_iff)
    qed }
  then show ?thesis by (auto simp: key_consistent_def set_item_def list_all_iff)
qed

lemma key_consistent_add_item:
  assumes kc: "key_consistent (h, its)"
  shows "key_consistent (add_item item (h, its))"
proof -
  have h: "h[item := (h ! item)\<lparr>shop_id := shop_id (h ! item)\<rparr>] = h" by simp
  { fix k' a' assume "(k', a') \<in> set (AList.update (shop_id (h ! item)) item its)"
    then have "(k', a') = (shop_id (h ! item), item) \<or> (k', a') \<in> set its"
      by (rule update_set_subset)
    with kc have "shop_id (h ! a') = k'" by (auto simp: key_consistent_def list_all_iff) }
  then show ?thesis by (auto simp: key_consistent_def add_item_def set_item_def list_all_iff)
qed

lemma key_consistent_remove_item:
  "remove_item shop_index st = Inr st' \<Longrightarrow> key_consistent st'"
  by (cases st) (auto simp: remove_item_def key_consistent_shift_items split: option.splits)

lemma wf_shop_shift_items:
  assumes "wf_shop (h, its)"
  shows "wf_shop (shift_items s d (h, its))"
    and "snd ` set (snd (shift_items s d (h, its))) \<subseteq> snd ` set its"
proof -
  show sub: "snd ` set (snd (shift_items s d (h, its))) \<subseteq> snd ` set its"
    by (auto simp: shift_items_def Let_def dest!: rebuild_set)
  from assms have "\<forall>a \<in> snd ` set its. a < length h" by (auto simp: wf_shop_def list_all_iff)
  with sub have "\<forall>a \<in> snd ` set (snd (shift_items s d (h, its))). a < length h" by blast
  then show "wf_shop (shift_items s d (h, its))"
    by (auto simp: wf_shop_def shift_items_def Let_def distinct_rebuild list_all_iff)
qed

lemma key_consistent_insert_item:
  assumes wf: "wf_shop (h, its)" and valid: "item < length h" and fresh: "item \<notin> snd ` set its"
  shows "key_consistent (insert_item shop_index item (h, its))"
proof -
  obtain h1 its1 where st1: "shift_items shop_index 1 (h, its) = (h1, its1)" by (cases "shift_items shop_index 1 (h, its)")
  from wf_shop_shift_items[OF wf, of shop_index 1] st1
  have wf1: "wf_shop (h1, its1)" and sub: "snd ` set its1 \<subseteq> snd ` set its" by simp_all
  have kc1: "key_consistent (h1, its1)" using key_consistent_shift_items[of shop_index 1 "(h, its)"] st1 by simp
  have len: "length h1 = length h" using st1 by (auto simp: shift_items_def Let_def)
  from sub fresh have "\<forall>k. (k, item) \<in> set its1 \<longrightarrow> k = shop_index" by force
  with key_consistent_set_item[OF wf1 kc1, of item shop_index] valid len st1
  show ?thesis by (simp add: insert_item_def)
qed

text \<open>
  Claim C10 (key consistency), as stated: every operation that stores or moves records
  keeps \<^verbatim>\<open>items[k].shop_id == k\<close>. It fails where the object passed to \<^verbatim>\<open>set_item\<close> or
  \<^verbatim>\<open>insert_item\<close> is already in the dictionary under another key: the dictionary then
  holds one object twice, and its \<^verbatim>\<open>shop_id\<close> can equal only one of the keys. In the shop
  with the single item 1, \<^verbatim>\<open>set_item(2, get_item(1))\<close> and \<^verbatim>\<open>insert_item(0, get_item(1))\<close>
  both break the invariant.
\<close>

theorem C10_counterexample:
  "wf_shop ([mk_item 1 1 10 0], [(1, 0)]) \<and>
   key_consistent ([mk_item 1 1 10 0], [(1, 0)]) \<and>
   \<not> key_consistent (set_item 2 0 ([mk_item 1 1 10 0], [(1, 0)])) \<and>
   \<not> key_consistent (insert_item 0 0 ([mk_item 1 1 10 0], [(1, 0)]))"
  by code_simp

text \<open>
  Claim C10, amended: on a well-formed shop that satisfies the invariant, \<^verbatim>\<open>shift_items\<close>,
  \<^verbatim>\<open>add_item\<close> and \<^verbatim>\<open>remove_item\<close> keep \<^verbatim>\<open>items[k].shop_id == k\<close>; \<^verbatim>\<open>set_item\<close> keeps it
  when the object stored is not in the dictionary under another key, and \<^verbatim>\<open>insert_item\<close>
  when the object inserted is not in the dictionary.
\<close>

theorem C10_key_consistency:
  assumes "wf_shop (h, its)" and "key_consistent (h, its)"
  shows "key_consistent (shift_items start_index shift (h, its)) \<and>
         key_consistent (add_item item (h, its)) \<and>
         (\<forall>st'. remove_item shop_index (h, its) = Inr st' \<longrightarrow> key_consistent st') \<and>
         (item < length h \<and> (\<forall>k. (k, item) \<in> set its \<longrightarrow> k = shop_index) \<longrightarrow>
            key_consistent (set_item shop_index item (h, its))) \<and>
         (item < length h \<and> item \<notin> snd ` set its \<longrightarrow>
            key_consistent (insert_item shop_index item (h, its)))"
  using assms
  by (simp add: key_consistent_shift_items key_consistent_add_item key_consistent_remove_item
        key_consistent_set_item key_consistent_insert_item)

theorem C10_witness:
  "wf_shop shop5 \<and> key_consistent shop5 \<and>
   key_consistent (shift_items 2 1 shop5) \<and>
   key_consistent (add_item 5 shop5) \<and>
   (\<exists>st'. remove_item 2 shop5 = Inr st' \<and> key_consistent st') \<and>
   key_consistent (set_item 7 5 shop5) \<and>
   key_consistent (insert_item 2 5 shop5)"
proof -
  have wf: "wf_shop (shop5_heap, shop5_items)" and kc: "key_consistent (shop5_heap, shop5_items)"
    by code_simp+
  have valid: "5 < length shop5_heap" and fresh: "5 \<notin> snd ` set shop5_items"
    and fresh': "\<forall>k. (k, 5) \<in> set shop5_items \<longrightarrow> k = 7"
    by (simp_all add: shop5_heap_def shop5_items_def)
  obtain st' where rm: "remove_item 2 (shop5_heap, shop5_items) = Inr st'"
    by (simp add: remove_item_def shop5_items_def)
  note inst = C10_key_consistency[OF wf kc, of 2 1 5 2]
  from inst have a: "key_consistent (shift_items 2 1 (shop5_heap, shop5_items))"
    "key_consistent (add_item 5 (shop5_heap, shop5_items))" by blast+
  from inst rm have c: "key_consistent st'" by blast
  from inst valid fresh have d: "key_consistent (insert_item 2 5 (shop5_heap, shop5_items))" by blast
  from C10_key_consistency[OF wf kc, of 2 1 5 7] valid fresh'
  have b: "key_consistent (set_item 7 5 (shop5_heap, shop5_items))" by blast
  from wf kc a b c d rm show ?thesis unfolding shop5_def by blast
qed

subsection \<open>Positional shift\<close>


lemma wf_shop_validD: "wf_shop (h, its) \<Longrightarrow> (k, a) \<in> set its \<Longrightarrow> a < length h"
  by (auto simp: wf_shop_def list_all_iff)







section \<open>Properties of from\_game\_data\<close>

lemma load_items_heap:
  "load_items rows h its = Inr (h', its') \<Longrightarrow> a < length h \<Longrightarrow> h' ! a = h ! a"
proof (induction rows arbitrary: h its)
  case Nil
  then show ?case by simp
next
  case (Cons line rest)
  then obtain item where it: "Item_of_line line = Inr item" by (auto split: sum.splits)
  with Cons.prems have "load_items rest (h @ [item]) (AList.update (shop_id item) (length h) its) = Inr (h', its')"
    by simp
  from Cons.IH[OF this] Cons.prems(2) show ?case by (simp add: nth_append)
qed

lemma load_items_other_key:
  "load_items rows h its = Inr (h', its') \<Longrightarrow>
   (\<forall>j item'. j < length rows \<and> Item_of_line (rows ! j) = Inr item' \<longrightarrow> shop_id item' \<noteq> k) \<Longrightarrow>
   map_of its' k = map_of its k"
proof (induction rows arbitrary: h its)
  case Nil
  then show ?case by simp
next
  case (Cons line rest)
  then obtain item where it: "Item_of_line line = Inr item" by (auto split: sum.splits)
  with Cons.prems have ld: "load_items rest (h @ [item]) (AList.update (shop_id item) (length h) its) = Inr (h', its')"
    by simp
  from Cons.prems(2)[rule_format, of 0 item] it have ne: "shop_id item \<noteq> k" by simp
  have "\<forall>j item'. j < length rest \<and> Item_of_line (rest ! j) = Inr item' \<longrightarrow> shop_id item' \<noteq> k"
    using Cons.prems(2) by (metis Suc_less_eq length_Cons nth_Cons_Suc)
  from Cons.IH[OF ld this] ne show ?case by (simp add: update_conv')
qed

lemma load_items_last_wins:
  "load_items rows h its = Inr (h', its') \<Longrightarrow> j < length rows \<Longrightarrow>
   Item_of_line (rows ! j) = Inr item \<Longrightarrow>
   (\<forall>j' item'. j < j' \<and> j' < length rows \<and> Item_of_line (rows ! j') = Inr item' \<longrightarrow>
       shop_id item' \<noteq> shop_id item) \<Longrightarrow>
   map_of its' (shop_id item) = Some (length h + j) \<and> h' ! (length h + j) = item"
proof (induction rows arbitrary: h its j)
  case Nil
  then show ?case by simp
next
  case (Cons line rest)
  then obtain item0 where it: "Item_of_line line = Inr item0" by (auto split: sum.splits)
  with Cons.prems have ld: "load_items rest (h @ [item0]) (AList.update (shop_id item0) (length h) its) = Inr (h', its')"
    by simp
  show ?case
  proof (cases j)
    case 0
    with Cons.prems(3) it have eq: "item0 = item" by simp
    have "\<forall>j item'. j < length rest \<and> Item_of_line (rest ! j) = Inr item' \<longrightarrow> shop_id item' \<noteq> shop_id item"
    proof (intro allI impI)
      fix j' item' assume "j' < length rest \<and> Item_of_line (rest ! j') = Inr item'"
      with Cons.prems(4)[rule_format, of "Suc j'" item'] 0 show "shop_id item' \<noteq> shop_id item" by simp
    qed
    from load_items_other_key[OF ld this] load_items_heap[OF ld, of "length h"] eq 0
    show ?thesis by (simp add: update_conv')
  next
    case (Suc j0)
    with Cons.prems have j0: "j0 < length rest" "Item_of_line (rest ! j0) = Inr item" by simp_all
    have "\<forall>j' item'. j0 < j' \<and> j' < length rest \<and> Item_of_line (rest ! j') = Inr item' \<longrightarrow>
       shop_id item' \<noteq> shop_id item"
    proof (intro allI impI)
      fix j' item' assume "j0 < j' \<and> j' < length rest \<and> Item_of_line (rest ! j') = Inr item'"
      with Cons.prems(4)[rule_format, of "Suc j'" item'] Suc show "shop_id item' \<noteq> shop_id item" by simp
    qed
    from Cons.IH[OF ld j0 this] Suc show ?thesis by simp
  qed
qed

text \<open>
  Claim C9 (identity conflict), as stated: when two rows resolve to the same
  \<^verbatim>\<open>shop_id\<close>, the last one read wins and a warning is recorded. The first half holds.
  The decoding has nothing to record a warning in: its whole result is the store and the
  dictionary, and for the table in which two rows carry the id 5 the decoded snapshot is
  the one that the table without the conflict decodes to.
\<close>

theorem C9_counterexample:
  "from_game_data conflict_tsv [] =
     Inr ([mk_item 5 1 100 0, mk_item 6 1 300 1, mk_item 5 2 250 3], [(5, 2), (6, 1)]) \<and>
   map_sum id snapshot (from_game_data conflict_tsv []) =
     map_sum id snapshot (from_game_data conflict_free_tsv [])"
  by code_simp

text \<open>
  Claim C9, amended: where the decoding succeeds, the snapshot holds for an id the record
  built from the last row that carries the id (the rows after it carry other ids); no
  warning is recorded. Row \<open>j\<close> of the data is line \<open>j + 1\<close> of the table, after the header.
\<close>

theorem C9_last_row_wins:
  assumes "from_game_data (Some lines) h = Inr st'"
    and "Suc j < length lines"
    and "Item_of_line (lines ! Suc j) = Inr item"
    and "\<forall>j' item'. j < j' \<and> Suc j' < length lines \<and> Item_of_line (lines ! Suc j') = Inr item'
           \<longrightarrow> shop_id item' \<noteq> shop_id item"
  shows "lookup_item st' (shop_id item) = Some item"
proof -
  obtain h' its' where st': "st' = (h', its')" by (cases st')
  let ?rows = "drop 1 lines"
  from assms(1) st' have ld: "load_items ?rows h [] = Inr (h', its')" by (simp add: from_game_data_def)
  from assms(2) have j: "j < length ?rows" by simp
  from assms(2) assms(3) have it: "Item_of_line (?rows ! j) = Inr item" by simp
  have later: "\<forall>j' item'. j < j' \<and> j' < length ?rows \<and> Item_of_line (?rows ! j') = Inr item'
           \<longrightarrow> shop_id item' \<noteq> shop_id item"
  proof (intro allI impI)
    fix j' item' assume a: "j < j' \<and> j' < length ?rows \<and> Item_of_line (?rows ! j') = Inr item'"
    then have "Suc j' < length lines" by auto
    moreover from this have "?rows ! j' = lines ! Suc j'" by simp
    ultimately have "j < j' \<and> Suc j' < length lines \<and> Item_of_line (lines ! Suc j') = Inr item'"
      using a by simp
    with assms(4) show "shop_id item' \<noteq> shop_id item" by blast
  qed
  from load_items_last_wins[OF ld j it later] st' show ?thesis by (simp add: lookup_item_def)
qed

theorem C9_witness:
  "\<exists>st'. from_game_data conflict_tsv [] = Inr st' \<and> lookup_item st' 5 = Some (mk_item 5 2 250 3)"
proof -
  let ?lines = "[tsv_header, tsv_row 5 1 100 0, tsv_row 6 1 300 1, tsv_row 5 2 250 3]"
  let ?st = "([mk_item 5 1 100 0, mk_item 6 1 300 1, mk_item 5 2 250 3], [(5, 2), (6, 1)])"
  have a: "from_game_data (Some ?lines) [] = Inr ?st" by code_simp
  have b: "Suc 2 < length ?lines" by simp
  have c: "Item_of_line (?lines ! Suc 2) = Inr (mk_item 5 2 250 3)" by code_simp
  have d: "\<forall>j' item'. 2 < j' \<and> Suc j' < length ?lines \<and> Item_of_line (?lines ! Suc j') = Inr item'
           \<longrightarrow> shop_id item' \<noteq> shop_id (mk_item 5 2 250 3)" by simp
  from C9_last_row_wins[OF a b c d] have "lookup_item ?st 5 = Some (mk_item 5 2 250 3)"
    by (simp add: mk_item_def)
  with a show ?thesis by (simp add: conflict_tsv_def)
qed

section \<open>Properties of the cell conversions\<close>

lemma digit_char_val: "d < 10 \<Longrightarrow> digit_val (digit_char d) = d"
proof -
  assume "d < 10"
  then have "d \<in> {0, 1, 2, 3, 4, 5, 6, 7, 8, 9}" by auto
  then show ?thesis by (auto simp: digit_val_def digit_char_def)
qed

lemma digit_char_is: "d < 10 \<Longrightarrow> is_digit (digit_char d)"
proof -
  assume "d < 10"
  then have "d \<in> {0, 1, 2, 3, 4, 5, 6, 7, 8, 9}" by auto
  then show ?thesis by (auto simp: is_digit_def digit_char_def)
qed

lemma digit_char_not_minus: "d < 10 \<Longrightarrow> digit_char d \<noteq> CHR ''-''"
  using digit_char_is[of d] by (auto simp: is_digit_def)

lemma str_nat_digits: "list_all is_digit (str_nat n)"
  by (induction n rule: str_nat.induct) (subst str_nat.simps, simp add: digit_char_is)

lemma str_nat_nonempty: "str_nat n \<noteq> []"
  by (subst str_nat.simps) simp

lemma dec_val_str_nat: "dec_val (str_nat n) = n"
proof (induction n rule: str_nat.induct)
  case (1 n)
  show ?case
  proof (cases "n < 10")
    case True
    then show ?thesis by (subst str_nat.simps) (simp add: dec_val_def digit_char_val)
  next
    case False
    with 1 have "dec_val (str_nat (n div 10)) = n div 10" by simp
    with False show ?thesis
      by (subst str_nat.simps) (simp add: dec_val_def digit_char_val)
  qed
qed

lemma parse_nat_str_nat: "parse_nat (str_nat n) = Some n"
  by (simp add: parse_nat_def str_nat_digits str_nat_nonempty dec_val_str_nat)

lemma hd_str_nat_not_minus: "hd (str_nat n) \<noteq> CHR ''-''"
proof -
  from str_nat_digits[of n] str_nat_nonempty[of n] have "is_digit (hd (str_nat n))"
    by (cases "str_nat n") auto
  then show ?thesis by (auto simp: is_digit_def)
qed

lemma parse_int_str_int: "parse_int (str_int i) = Some i"
proof (cases "i < 0")
  case True
  then show ?thesis by (simp add: parse_int_def str_int_def parse_nat_str_nat)
next
  case False
  obtain c ds where s: "str_nat (nat i) = c # ds" using str_nat_nonempty[of "nat i"] by (cases "str_nat (nat i)") auto
  with hd_str_nat_not_minus[of "nat i"] have "c \<noteq> CHR ''-''" by simp
  with s False parse_nat_str_nat[of "nat i"] show ?thesis by (simp add: parse_int_def str_int_def)
qed


section \<open>Properties of the bound fields\<close>

lemma length_row_set: "length (row_set c v row) = max (length row) (Suc c)"
  by (auto simp: row_set_def pad_def)

lemma nth_row_set:
  "c' < max (length row) (Suc c) \<Longrightarrow>
   row_set c v row ! c' = (if c' = c then v else if c' < length row then row ! c' else [])"
  by (auto simp: row_set_def pad_def nth_list_update nth_append)

lemma row_at_set_cell:
  "row_at (csv_lines (set_cell r c v csv)) r' =
     (if r' = r then row_set c v (row_at (csv_lines csv) r) else row_at (csv_lines csv) r')"
  by (auto simp: set_cell_def row_at_def pad_def nth_list_update nth_append)

lemma csv_index_set_cell: "csv_index (set_cell r c v csv) = csv_index csv"
  by (simp add: set_cell_def)

lemma row_at_IntCSVField_write:
  "row_at (csv_lines (IntCSVField_write c ri ro v csv)) r' =
     (if r' = field_row csv ri ro then row_set c (str_opt_int v) (row_at (csv_lines csv) r')
      else row_at (csv_lines csv) r')"
  by (simp add: IntCSVField_write_def row_at_set_cell)

lemma row_at_StringCSVField_write:
  "row_at (csv_lines (StringCSVField_write c ri ro v csv)) r' =
     (if r' = field_row csv ri ro then row_set c (str_opt_str v) (row_at (csv_lines csv) r')
      else row_at (csv_lines csv) r')"
  by (simp add: StringCSVField_write_def row_at_set_cell)

lemma csv_index_write:
  "csv_index (IntCSVField_write c ri ro v csv) = csv_index csv"
  "csv_index (StringCSVField_write c ri ro w csv) = csv_index csv"
  by (simp_all add: IntCSVField_write_def StringCSVField_write_def csv_index_set_cell)

lemma field_row_write:
  "field_row (IntCSVField_write c ri ro v csv) ri' ro' = field_row csv ri' ro'"
  "field_row (StringCSVField_write c ri ro w csv) ri' ro' = field_row csv ri' ro'"
  by (simp_all add: field_row_def csv_index_write split: option.splits)

lemma field_row_simps:
  "field_row (csv\<lparr>csv_index := i\<rparr>) None ro = i + ro"
  "field_row csv (Some r) ro = r + ro"
  by (simp_all add: field_row_def)

lemmas write_simps = row_at_IntCSVField_write row_at_StringCSVField_write csv_index_write
  field_row_write field_row_simps



lemma str_opt_simps:
  "parse_int (str_opt_int (Some i)) = Some i"
  "str_opt_str (Some s) = s"
  by (simp_all add: str_opt_int_def str_opt_str_def parse_int_str_int)

lemma row_set_0: "row_set 0 v row = v # tl row"
  by (cases row) (simp_all add: row_set_def pad_def)

lemma row_set_Suc_Cons: "row_set (Suc n) v (x # row) = x # row_set n v row"
  by (simp add: row_set_def pad_def)

lemma row_set_numeral_Cons:
  "row_set (numeral k) v (x # row) = x # row_set (pred_numeral k) v row"
  by (simp add: numeral_eq_Suc row_set_Suc_Cons)

lemmas row_simps = write_simps row_set_0 row_set_Suc_Cons row_set_numeral_Cons

lemma KeyFrame_apply_row:
  "row_at (csv_lines (KeyFrame_apply_csv i csv kf)) r =
     (if r = i then
        str_opt_int (kf_frame kf) # str_opt_int (kf_change_in_value kf) #
        str_opt_int (kf_ease_mode kf) # str_opt_int (kf_ease_power kf) #
        tl (tl (tl (tl (row_at (csv_lines csv) i))))
      else row_at (csv_lines csv) r)"
  by (simp add: KeyFrame_apply_csv_def row_simps)

lemma KeyFrame_apply_rows:
  "r \<noteq> i \<Longrightarrow> row_at (csv_lines (KeyFrame_apply_csv i csv kf)) r = row_at (csv_lines csv) r"
  by (simp add: KeyFrame_apply_row)


section \<open>Properties of the animation schemas (anim.py)\<close>

subsection \<open>Cursors\<close>


lemma KeyFrames_apply_csv_cursor:
  "KeyFrames_apply_csv index csv self = (next_index, self', csv') \<Longrightarrow>
   next_index = index + block_rows self \<and> kfs_keyframes self' = kfs_keyframes self \<and>
   kfs_total_keyframes self' = Some (int (length (kfs_keyframes self)))"
  by (auto simp: KeyFrames_apply_csv_def Let_def block_rows_def)


lemma UnitAnim_apply_parts_cursor:
  "UnitAnim_apply_parts index parts csv = (next_index, parts', csv') \<Longrightarrow>
   next_index = index + sum_list (map block_rows parts) \<and>
   map kfs_keyframes parts' = map kfs_keyframes parts"
proof (induction parts arbitrary: index csv next_index parts' csv')
  case Nil
  then show ?case by simp
next
  case (Cons part rest)
  obtain i1 p1 c1 where a: "KeyFrames_apply_csv index csv part = (i1, p1, c1)"
    by (cases "KeyFrames_apply_csv index csv part")
  obtain i2 r2 c2 where b: "UnitAnim_apply_parts i1 rest c1 = (i2, r2, c2)"
    by (cases "UnitAnim_apply_parts i1 rest c1")
  from Cons.prems a b have eq: "next_index = i2" "parts' = p1 # r2" by simp_all
  from KeyFrames_apply_csv_cursor[OF a] Cons.IH[OF b] eq show ?case by simp
qed



subsection \<open>Loops over the rows of a repeated block\<close>

lemma apply_each_rows:
  assumes fr: "\<And>i c x r. r \<noteq> i \<Longrightarrow> row_at (csv_lines (app i c x)) r = row_at (csv_lines c) r"
  shows "(\<forall>j. i \<le> j \<and> j < i + length xs \<longrightarrow> r \<noteq> ind j) \<Longrightarrow>
         row_at (csv_lines (apply_each app ind i xs csv)) r = row_at (csv_lines csv) r"
proof (induction xs arbitrary: i csv)
  case Nil
  then show ?case by simp
next
  case (Cons x xs)
  from Cons.prems have "r \<noteq> ind i" by simp
  moreover from Cons.prems have "\<forall>j. Suc i \<le> j \<and> j < Suc i + length xs \<longrightarrow> r \<noteq> ind j" by simp
  ultimately show ?case using Cons.IH[of "Suc i" "app (ind i) csv x"] fr by simp
qed



subsection \<open>KeyFrames blocks\<close>

lemma KeyFrames_fields_row:
  fixes csv index v0 v1 v2 v3 v4 v5 v6
  defines "cf \<equiv>
     IntCSVField_write 0 None 1 v6
     (StringCSVField_write 5 None 0 v5
     (IntCSVField_write 4 None 0 v4
     (IntCSVField_write 3 None 0 v3
     (IntCSVField_write 2 None 0 v2
     (IntCSVField_write 1 None 0 v1
     (IntCSVField_write 0 None 0 v0
        (csv\<lparr>csv_index := index\<rparr>)))))))"
  shows "row_at (csv_lines cf) index =
      str_opt_int v0 # str_opt_int v1 # str_opt_int v2 # str_opt_int v3 # str_opt_int v4 #
      str_opt_str v5 # tl (tl (tl (tl (tl (tl (row_at (csv_lines csv) index))))))"
    and "row_at (csv_lines cf) (index + 1) = str_opt_int v6 # tl (row_at (csv_lines csv) (index + 1))"
    and "r \<noteq> index \<Longrightarrow> r \<noteq> index + 1 \<Longrightarrow> row_at (csv_lines cf) r = row_at (csv_lines csv) r"
  unfolding cf_def by (simp_all add: row_simps)

lemma KeyFrames_apply_row:
  assumes "KeyFrames_apply_csv index csv p = (next_index, p', csv1)"
  shows "row_at (csv_lines csv1) r =
     (if r = index then
        str_opt_int (kfs_model_id p) # str_opt_int (kfs_modification_type p) #
        str_opt_int (kfs_loop p) # str_opt_int (kfs_min_value p) # str_opt_int (kfs_max_value p) #
        str_opt_str (kfs_name p) # tl (tl (tl (tl (tl (tl (row_at (csv_lines csv) index))))))
      else if r = index + 1 then
        str_int (int (length (kfs_keyframes p))) # tl (row_at (csv_lines csv) (index + 1))
      else if index + 2 \<le> r \<and> r < index + 2 + length (kfs_keyframes p) then row_at (csv_lines csv1) r
      else row_at (csv_lines csv) r)"
proof -
  let ?ind = "\<lambda>i. index + i + 2"
  let ?cf = "IntCSVField_write 0 None 1 (Some (int (length (kfs_keyframes p))))
     (StringCSVField_write 5 None 0 (kfs_name p)
     (IntCSVField_write 4 None 0 (kfs_max_value p)
     (IntCSVField_write 3 None 0 (kfs_min_value p)
     (IntCSVField_write 2 None 0 (kfs_loop p)
     (IntCSVField_write 1 None 0 (kfs_modification_type p)
     (IntCSVField_write 0 None 0 (kfs_model_id p)
        (csv\<lparr>csv_index := index\<rparr>)))))))"
  from assms have csv1: "csv1 = apply_each KeyFrame_apply_csv ?ind 0 (kfs_keyframes p) ?cf"
    by (simp add: KeyFrames_apply_csv_def Let_def)
  show ?thesis
  proof (cases "index + 2 \<le> r \<and> r < index + 2 + length (kfs_keyframes p)")
    case True
    then show ?thesis by simp
  next
    case False
    then have "\<forall>j. 0 \<le> j \<and> j < 0 + length (kfs_keyframes p) \<longrightarrow> r \<noteq> ?ind j" by auto
    from apply_each_rows[where app = KeyFrame_apply_csv, OF KeyFrame_apply_rows this]
    have a: "row_at (csv_lines csv1) r = row_at (csv_lines ?cf) r" unfolding csv1 .
    consider "r = index" | "r = index + 1" | "r \<noteq> index" "r \<noteq> index + 1" by blast
    then show ?thesis
    proof cases
      case 1
      then show ?thesis unfolding a by (simp only: KeyFrames_fields_row(1)) simp
    next
      case 2
      then show ?thesis unfolding a by (simp only: KeyFrames_fields_row(2)) (simp add: str_opt_int_def)
    next
      case 3
      from KeyFrames_fields_row(3)[OF 3] False 3 show ?thesis unfolding a by simp
    qed
  qed
qed

lemma KeyFrames_apply_rows:
  "KeyFrames_apply_csv index csv p = (next_index, p', csv1) \<Longrightarrow>
   r < index \<or> next_index \<le> r \<Longrightarrow> row_at (csv_lines csv1) r = row_at (csv_lines csv) r"
  using KeyFrames_apply_row[of index csv p next_index p' csv1 r]
    KeyFrames_apply_csv_cursor[of index csv p next_index p' csv1]
  by (auto simp: block_rows_def)




lemma UnitAnim_apply_parts_rows:
  "UnitAnim_apply_parts index parts csv = (next_index, parts', csv1) \<Longrightarrow>
   r < index \<or> next_index \<le> r \<Longrightarrow> row_at (csv_lines csv1) r = row_at (csv_lines csv) r"
proof (induction parts arbitrary: index csv next_index parts' csv1)
  case Nil
  then show ?case by simp
next
  case (Cons part rest)
  obtain i1 p1 c1 where a: "KeyFrames_apply_csv index csv part = (i1, p1, c1)"
    by (cases "KeyFrames_apply_csv index csv part")
  obtain i2 r2 c2 where b: "UnitAnim_apply_parts i1 rest c1 = (i2, r2, c2)"
    by (cases "UnitAnim_apply_parts i1 rest c1")
  from Cons.prems(1) a b have eq: "next_index = i2" "csv1 = c2" by simp_all
  from KeyFrames_apply_csv_cursor[OF a] have i1: "index \<le> i1" by simp
  from UnitAnim_apply_parts_cursor[OF b] have i2: "i1 \<le> i2" by simp
  from Cons.prems(2) eq i1 i2 have "r < i1 \<or> i2 \<le> r" "r < index \<or> i1 \<le> r" by auto
  with Cons.IH[OF b] KeyFrames_apply_rows[OF a] eq show ?case by simp
qed


subsection \<open>The flat records of Mamodel\<close>


lemma ModelPart_apply_rows:
  "r \<noteq> i \<Longrightarrow> row_at (csv_lines (ModelPart_apply_csv i csv p)) r = row_at (csv_lines csv) r"
  by (simp add: ModelPart_apply_csv_def row_simps)



lemma MamodelUnits_apply_rows:
  "r \<noteq> i \<Longrightarrow> row_at (csv_lines (MamodelUnits_apply_csv i csv u)) r = row_at (csv_lines csv) r"
  by (simp add: MamodelUnits_apply_csv_def row_simps)



lemma MamodelInts_apply_rows:
  "r \<noteq> i \<Longrightarrow> row_at (csv_lines (MamodelInts_apply_csv i csv m)) r = row_at (csv_lines csv) r"
  by (simp add: MamodelInts_apply_csv_def row_simps)


lemma Rect_apply_rows:
  "r \<noteq> i \<Longrightarrow> row_at (csv_lines (Rect_apply_csv i csv m)) r = row_at (csv_lines csv) r"
  by (simp add: Rect_apply_csv_def row_simps)

subsection \<open>Metadata blocks: one field per row\<close>

lemma MaanimMetadata_apply_row:
  "row_at (csv_lines (MaanimMetadata_apply_csv csv m)) 0 =
     str_opt_str (mam_head_name m) # tl (row_at (csv_lines csv) 0)"
  "row_at (csv_lines (MaanimMetadata_apply_csv csv m)) (Suc 0) =
     str_opt_str (mam_version_code m) # tl (row_at (csv_lines csv) (Suc 0))"
  "row_at (csv_lines (MaanimMetadata_apply_csv csv m)) 2 =
     str_opt_int (mam_total_parts m) # tl (row_at (csv_lines csv) 2)"
  "3 \<le> r \<Longrightarrow> row_at (csv_lines (MaanimMetadata_apply_csv csv m)) r = row_at (csv_lines csv) r"
  by (simp_all add: MaanimMetadata_apply_csv_def row_simps)

lemma MamodelMetaData_apply_row:
  "row_at (csv_lines (MamodelMetaData_apply_csv csv m)) 0 =
     str_opt_str (mmd_head_name m) # tl (row_at (csv_lines csv) 0)"
  "row_at (csv_lines (MamodelMetaData_apply_csv csv m)) (Suc 0) =
     str_opt_str (mmd_version_code m) # tl (row_at (csv_lines csv) (Suc 0))"
  "row_at (csv_lines (MamodelMetaData_apply_csv csv m)) 2 =
     str_opt_int (mmd_total_parts m) # tl (row_at (csv_lines csv) 2)"
  "3 \<le> r \<Longrightarrow> row_at (csv_lines (MamodelMetaData_apply_csv csv m)) r = row_at (csv_lines csv) r"
  by (simp_all add: MamodelMetaData_apply_csv_def row_simps)

lemma TextureMetadata_apply_row:
  "row_at (csv_lines (TextureMetadata_apply_csv csv m)) 3 =
     str_opt_int (tm_total_rects m) # tl (row_at (csv_lines csv) 3)"
  by (simp_all add: TextureMetadata_apply_csv_def row_simps)

subsection \<open>UnitAnim\<close>




subsection \<open>MamodelIntsInts\<close>

lemma MamodelIntsInts_apply_row:
  assumes "MamodelIntsInts_apply_csv index csv m = (m', csv1)"
  shows "row_at (csv_lines csv1) index =
           str_int (int (length (mii_ints m))) # tl (row_at (csv_lines csv) index)"
    and "r < index \<Longrightarrow> row_at (csv_lines csv1) r = row_at (csv_lines csv) r"
proof -
  let ?ind = "\<lambda>i. index + i + 1"
  let ?cf = "IntCSVField_write 0 None 0 (Some (int (length (mii_ints m)))) (csv\<lparr>csv_index := index\<rparr>)"
  from assms have csv1: "csv1 = apply_each MamodelInts_apply_csv ?ind 0 (mii_ints m) ?cf"
    by (simp add: MamodelIntsInts_apply_csv_def Let_def)
  have fr: "row_at (csv_lines csv1) r = row_at (csv_lines ?cf) r" if "r \<le> index" for r
  proof -
    from that have "\<forall>j. 0 \<le> j \<and> j < 0 + length (mii_ints m) \<longrightarrow> r \<noteq> ?ind j" by auto
    from apply_each_rows[where app = MamodelInts_apply_csv, OF MamodelInts_apply_rows this]
    show ?thesis unfolding csv1 .
  qed
  show "row_at (csv_lines csv1) index =
           str_int (int (length (mii_ints m))) # tl (row_at (csv_lines csv) index)"
    by (simp add: fr row_simps str_opt_int_def)
  show "r < index \<Longrightarrow> row_at (csv_lines csv1) r = row_at (csv_lines csv) r"
    by (simp add: fr row_simps)
qed


subsection \<open>Mamodel\<close>



subsection \<open>The count cells\<close>

lemma get_cell_row: "row_at (csv_lines csv) r = v # rest \<Longrightarrow> get_cell csv r 0 = Some v"
  by (simp add: get_cell_def)

lemma KeyFrames_count:
  assumes "KeyFrames_apply_csv index csv p = (next_index, p', csv1)"
  shows "kfs_total_keyframes p' = Some (int (length (kfs_keyframes p)))"
    and "get_cell csv1 (index + 1) 0 = Some (str_int (int (length (kfs_keyframes p))))"
proof -
  from KeyFrames_apply_csv_cursor[OF assms]
  show "kfs_total_keyframes p' = Some (int (length (kfs_keyframes p)))" by simp
  show "get_cell csv1 (index + 1) 0 = Some (str_int (int (length (kfs_keyframes p))))"
    by (rule get_cell_row) (simp add: KeyFrames_apply_row[OF assms])
qed

lemma Texture_count:
  assumes "Texture_apply_csv csv t = (t', csv1)"
  shows "tm_total_rects (tex_metadata t') = Some (int (length (tex_rects t)))"
    and "get_cell csv1 3 0 = Some (str_int (int (length (tex_rects t))))"
proof -
  let ?md = "(tex_metadata t)\<lparr>tm_total_rects := Some (int (length (tex_rects t)))\<rparr>"
  let ?c1 = "TextureMetadata_apply_csv csv ?md"
  from assms have t': "t' = t\<lparr>tex_metadata := ?md\<rparr>"
    and csv1: "csv1 = apply_each Rect_apply_csv (\<lambda>i. i + 4) 0 (tex_rects t) ?c1"
    by (simp_all add: Texture_apply_csv_def Let_def)
  show "tm_total_rects (tex_metadata t') = Some (int (length (tex_rects t)))" by (simp add: t')
  have "\<forall>j. 0 \<le> j \<and> j < 0 + length (tex_rects t) \<longrightarrow> 3 \<noteq> j + 4" by simp
  from apply_each_rows[where app = Rect_apply_csv and ind = "\<lambda>i. i + 4", OF Rect_apply_rows this]
  have "row_at (csv_lines csv1) 3 = row_at (csv_lines ?c1) 3" unfolding csv1 .
  then show "get_cell csv1 3 0 = Some (str_int (int (length (tex_rects t))))"
    by (intro get_cell_row) (simp add: TextureMetadata_apply_row str_opt_int_def)
qed

lemma Mamodel_count:
  assumes "Mamodel_apply_csv csv mm = (mm', csv4)"
  shows "mmd_total_parts (mm_metadata mm') = Some (int (length (mm_parts mm)))"
    and "get_cell csv4 2 0 = Some (str_int (int (length (mm_parts mm))))"
    and "mii_total_ints (mm_ints mm') = Some (int (length (mii_ints (mm_ints mm))))"
    and "get_cell csv4 (length (mm_parts mm) + 4) 0 =
           Some (str_int (int (length (mii_ints (mm_ints mm)))))"
proof -
  let ?n = "length (mm_parts mm)"
  let ?ind = "\<lambda>i::nat. i + 3"
  let ?md = "(mm_metadata mm)\<lparr>mmd_total_parts := Some (int ?n)\<rparr>"
  let ?c1 = "MamodelMetaData_apply_csv csv ?md"
  let ?c2 = "apply_each ModelPart_apply_csv ?ind 0 (mm_parts mm) ?c1"
  let ?c3 = "MamodelUnits_apply_csv (?n + 3) ?c2 (mm_units mm)"
  obtain ints' c4 where ia: "MamodelIntsInts_apply_csv (?n + 4) ?c3 (mm_ints mm) = (ints', c4)"
    by (cases "MamodelIntsInts_apply_csv (?n + 4) ?c3 (mm_ints mm)")
  with assms have mm': "mm' = mm\<lparr>mm_metadata := ?md, mm_ints := ints'\<rparr>" and c4: "csv4 = c4"
    by (simp_all add: Mamodel_apply_csv_def Let_def)
  from ia have ints': "ints' = (mm_ints mm)\<lparr>mii_total_ints := Some (int (length (mii_ints (mm_ints mm))))\<rparr>"
    by (simp add: MamodelIntsInts_apply_csv_def Let_def)
  show "mmd_total_parts (mm_metadata mm') = Some (int ?n)" by (simp add: mm')
  show "mii_total_ints (mm_ints mm') = Some (int (length (mii_ints (mm_ints mm))))"
    by (simp add: mm' ints')
  have "\<forall>j. 0 \<le> j \<and> j < 0 + ?n \<longrightarrow> 2 \<noteq> ?ind j" by simp
  from apply_each_rows[where app = ModelPart_apply_csv and ind = ?ind, OF ModelPart_apply_rows this]
  have "row_at (csv_lines ?c2) 2 = row_at (csv_lines ?c1) 2" .
  moreover have "row_at (csv_lines ?c3) 2 = row_at (csv_lines ?c2) 2"
    by (rule MamodelUnits_apply_rows) simp
  moreover have "row_at (csv_lines c4) 2 = row_at (csv_lines ?c3) 2"
    by (rule MamodelIntsInts_apply_row(2)[OF ia]) simp
  ultimately have "row_at (csv_lines csv4) 2 = row_at (csv_lines ?c1) 2" by (simp add: c4)
  then show "get_cell csv4 2 0 = Some (str_int (int ?n))"
    by (intro get_cell_row) (simp add: MamodelMetaData_apply_row str_opt_int_def)
  show "get_cell csv4 (?n + 4) 0 = Some (str_int (int (length (mii_ints (mm_ints mm)))))"
    unfolding c4 by (rule get_cell_row) (rule MamodelIntsInts_apply_row(1)[OF ia])
qed

lemma UnitAnim_count:
  assumes "UnitAnim_apply_csv csv ua = (ua', csv1)"
  shows "mam_total_parts (ua_metadata ua') = Some (int (length (ua_parts ua)))"
    and "get_cell csv1 2 0 = Some (str_int (int (length (ua_parts ua))))"
proof -
  let ?n = "length (ua_parts ua)"
  let ?md = "(ua_metadata ua)\<lparr>mam_total_parts := Some (int ?n)\<rparr>"
  let ?c0 = "MaanimMetadata_apply_csv csv ?md"
  obtain nx parts' c2 where pa: "UnitAnim_apply_parts 3 (ua_parts ua) ?c0 = (nx, parts', c2)"
    by (cases "UnitAnim_apply_parts 3 (ua_parts ua) ?c0")
  with assms have ua': "ua' = ua\<lparr>ua_metadata := ?md, ua_parts := parts'\<rparr>" and c2: "csv1 = c2"
    by (simp_all add: UnitAnim_apply_csv_def Let_def)
  show "mam_total_parts (ua_metadata ua') = Some (int ?n)" by (simp add: ua')
  have "row_at (csv_lines c2) 2 = row_at (csv_lines ?c0) 2"
    by (rule UnitAnim_apply_parts_rows[OF pa]) simp
  then show "get_cell csv1 2 0 = Some (str_int (int ?n))"
    unfolding c2 by (intro get_cell_row) (simp add: MaanimMetadata_apply_row str_opt_int_def)
qed

section \<open>Counts, cursors and the round trip\<close>

lemma str_int_digit: "n < 10 \<Longrightarrow> str_int (int n) = [digit_char n]"
  by (simp add: str_int_def str_nat.simps[of n])




text \<open>
  Claim C5 (count re-derivation): for every table, every record and every count the record
  held before: \<^verbatim>\<open>Texture.apply_csv\<close> leaves \<^verbatim>\<open>total_rects\<close> equal to
  \<^verbatim>\<open>len(rects)\<close> and writes that number into the count cell, row 3 and column 0;
  \<^verbatim>\<open>KeyFrames.apply_csv\<close> at cursor \<open>index\<close> leaves \<^verbatim>\<open>total_keyframes\<close> equal to
  \<^verbatim>\<open>len(keyframes)\<close> and writes it into the cell of row \<open>index + 1\<close> and column 0;
  \<^verbatim>\<open>Mamodel.apply_csv\<close> leaves \<^verbatim>\<open>total_parts\<close> equal to \<^verbatim>\<open>len(parts)\<close> and writes it
  into the cell of row 2 and column 0. The stale count occurs on neither right-hand side.
  The two other blocks with a count behave alike: \<^verbatim>\<open>total_ints\<close> of the ints of a
  \<^verbatim>\<open>Mamodel\<close>, written below the units in row \<open>len(parts) + 4\<close>, and \<^verbatim>\<open>total_parts\<close> of a
  \<^verbatim>\<open>UnitAnim\<close>, written in row 2.
\<close>

theorem C5_count_rederivation:
  "tm_total_rects (tex_metadata (fst (Texture_apply_csv csv t))) = Some (int (length (tex_rects t))) \<and>
   get_cell (snd (Texture_apply_csv csv t)) 3 0 = Some (str_int (int (length (tex_rects t)))) \<and>
   kfs_total_keyframes (fst (snd (KeyFrames_apply_csv index csv p))) =
     Some (int (length (kfs_keyframes p))) \<and>
   get_cell (snd (snd (KeyFrames_apply_csv index csv p))) (index + 1) 0 =
     Some (str_int (int (length (kfs_keyframes p)))) \<and>
   mmd_total_parts (mm_metadata (fst (Mamodel_apply_csv csv mm))) = Some (int (length (mm_parts mm))) \<and>
   get_cell (snd (Mamodel_apply_csv csv mm)) 2 0 = Some (str_int (int (length (mm_parts mm)))) \<and>
   mii_total_ints (mm_ints (fst (Mamodel_apply_csv csv mm))) =
     Some (int (length (mii_ints (mm_ints mm)))) \<and>
   get_cell (snd (Mamodel_apply_csv csv mm)) (length (mm_parts mm) + 4) 0 =
     Some (str_int (int (length (mii_ints (mm_ints mm))))) \<and>
   mam_total_parts (ua_metadata (fst (UnitAnim_apply_csv csv ua))) =
     Some (int (length (ua_parts ua))) \<and>
   get_cell (snd (UnitAnim_apply_csv csv ua)) 2 0 = Some (str_int (int (length (ua_parts ua))))"
proof -
  have t: "Texture_apply_csv csv t = (fst (Texture_apply_csv csv t), snd (Texture_apply_csv csv t))"
    by simp
  have k: "KeyFrames_apply_csv index csv p =
      (fst (KeyFrames_apply_csv index csv p), fst (snd (KeyFrames_apply_csv index csv p)),
       snd (snd (KeyFrames_apply_csv index csv p)))"
    by simp
  have m: "Mamodel_apply_csv csv mm = (fst (Mamodel_apply_csv csv mm), snd (Mamodel_apply_csv csv mm))"
    by simp
  have u: "UnitAnim_apply_csv csv ua = (fst (UnitAnim_apply_csv csv ua), snd (UnitAnim_apply_csv csv ua))"
    by simp
  from Texture_count[OF t] KeyFrames_count[OF k] Mamodel_count[OF m] UnitAnim_count[OF u]
  show ?thesis by blast
qed

theorem C5_witness:
  "tm_total_rects (tex_metadata texture_a) = Some 5 \<and>
   tm_total_rects (tex_metadata (fst (Texture_apply_csv empty_csv texture_a))) = Some 2 \<and>
   get_cell (snd (Texture_apply_csv empty_csv texture_a)) 3 0 = Some ''2'' \<and>
   kfs_total_keyframes part_a = Some 7 \<and>
   kfs_total_keyframes (fst (snd (KeyFrames_apply_csv 3 empty_csv part_a))) = Some 2 \<and>
   get_cell (snd (snd (KeyFrames_apply_csv 3 empty_csv part_a))) 4 0 = Some ''2'' \<and>
   mmd_total_parts (mm_metadata model_a) = Some 9 \<and>
   mmd_total_parts (mm_metadata (fst (Mamodel_apply_csv empty_csv model_a))) = Some 1 \<and>
   get_cell (snd (Mamodel_apply_csv empty_csv model_a)) 2 0 = Some ''1'' \<and>
   mii_total_ints (mm_ints model_a) = None \<and>
   mii_total_ints (mm_ints (fst (Mamodel_apply_csv empty_csv model_a))) = Some 1 \<and>
   get_cell (snd (Mamodel_apply_csv empty_csv model_a)) 5 0 = Some ''1'' \<and>
   mam_total_parts (ua_metadata anim_ab) = Some 0 \<and>
   mam_total_parts (ua_metadata (fst (UnitAnim_apply_csv empty_csv anim_ab))) = Some 2 \<and>
   get_cell (snd (UnitAnim_apply_csv empty_csv anim_ab)) 2 0 = Some ''2''"
  using C5_count_rederivation[of empty_csv texture_a 3 part_a model_a anim_ab]
    str_int_digit[of 2] str_int_digit[of 1]
  by (simp add: texture_a_def part_a_def model_a_def anim_ab_def digit_char_def)








end
